theory Spec2Isabelle
  imports Complex_Main "HOL-Library.Multiset"
begin

section \<open>JavaScript values, thrown errors\<close>

text \<open>
  A thrown JavaScript value. \<open>Error m c\<close> is an instance of \<open>Error\<close> with message \<open>m\<close>
  and, when present, a \<open>code\<close> property \<open>c\<close> (the OpenAI client sets one);
  \<open>Thrown s c\<close> is any other thrown value, \<open>s\<close> being what \<open>String(value)\<close> gives and
  \<open>c\<close> its \<open>code\<close> property when the value is an object that has one.
\<close>

datatype error = Error string "string option" | Thrown string "string option"

fun error_code :: "error \<Rightarrow> string option" where
  "error_code (Error m c) = c"
| "error_code (Thrown s c) = c"

text \<open>\<open>error instanceof Error ? error.message : String(error)\<close>\<close>

fun error_text :: "error \<Rightarrow> string" where
  "error_text (Error m c) = m"
| "error_text (Thrown s c) = s"

definition TypeError :: "string \<Rightarrow> error" where
  "TypeError m = Error m None"

text \<open>Plain JSON data, with \<open>undefined\<close> for an absent property.\<close>

datatype json =
    JUndefined
  | JNull
  | JBool bool
  | JNum real
  | JStr string
  | JArr "json list"
  | JObj "(string \<times> json) list"

text \<open>JavaScript truthiness of a value.\<close>

fun truthy :: "json \<Rightarrow> bool" where
  "truthy JUndefined = False"
| "truthy JNull = False"
| "truthy (JBool b) = b"
| "truthy (JNum n) = (n \<noteq> 0)"
| "truthy (JStr s) = (s \<noteq> [])"
| "truthy (JArr xs) = True"
| "truthy (JObj kvs) = True"

text \<open>
  Property read \<open>v.k\<close> for the property names this program reads: it throws a
  \<open>TypeError\<close> on \<open>undefined\<close> and \<open>null\<close>, gives the member of an object, and
  \<open>undefined\<close> where the value has no such property.
\<close>

fun get_prop :: "json \<Rightarrow> string \<Rightarrow> error + json" where
  "get_prop JUndefined k = Inl (TypeError (''Cannot read properties of undefined (reading '' @ k @ '')''))"
| "get_prop JNull k = Inl (TypeError (''Cannot read properties of null (reading '' @ k @ '')''))"
| "get_prop (JObj kvs) k = Inr (case map_of kvs k of Some v \<Rightarrow> v | None \<Rightarrow> JUndefined)"
| "get_prop v k = Inr JUndefined"

section \<open>Stored data\<close>

type_synonym vector = "real list"

text \<open>
  A row of the \<open>EmailEmbedding\<close> table and of the \<open>HubSpotContactEmbedding\<close> table, as
  \<open>importEmails\<close> and \<open>importHubSpotContacts\<close> write them. Dates are instants
  (milliseconds since the epoch); the embedding column is NULL when the row was stored
  without a vector.
\<close>

record email_row =
  e_id :: string
  e_userId :: string
  e_subject :: string
  e_from :: string
  e_to :: string
  e_body :: string
  e_date :: int
  e_embedding :: "vector option"

record contact_row =
  c_id :: string
  c_userId :: string
  c_firstName :: "string option"
  c_lastName :: "string option"
  c_email :: "string option"
  c_phone :: "string option"
  c_company :: "string option"
  c_notes :: "string option"
  c_createdAt :: int
  c_embedding :: "vector option"

record account =
  access_token :: "string option"

record user =
  ongoingInstructions :: "string option"
  hubspotAccessToken :: "string option"
  accounts :: "account list"

section \<open>Chat messages and tool invocations\<close>

text \<open>A tool call of a model reply: \<open>id\<close>, \<open>function.name\<close>, \<open>function.arguments\<close>.\<close>

record tool_call =
  tc_id :: string
  tc_name :: string
  tc_arguments :: string

text \<open>The reply message of the model: \<open>content\<close> may be null, \<open>tool_calls\<close> may be absent.\<close>

record assistant_message =
  am_content :: "string option"
  am_tool_calls :: "tool_call list option"

text \<open>The entry pushed on \<open>toolResults\<close>: \<open>{tool_call_id, role: 'tool', content}\<close>.\<close>

record tool_result =
  tool_call_id :: string
  tr_content :: string

datatype message =
    Msg string string
  | AssistantMsg assistant_message
  | ToolMsg tool_result

section \<open>The outside world: a trace of calls and their answers\<close>

text \<open>
  Every call that leaves the process is recorded, in order. The answer of the outside
  world to a call may depend on everything that was called before, so each answer below
  is a function of the trace so far. \<open>ExecuteToolCall\<close> is recorded on entry of
  \<open>executeToolCall\<close>, with the invocation it was given.
\<close>

datatype event =
    EmbedQuery string
  | EmailVectorQuery string vector nat
  | ContactVectorQuery string vector nat
  | EmailFindMany string "string list" nat
  | ContactFindMany string "string list" nat
  | UserFindUnique string bool
  | GmailGetProfile string
  | GmailSearchMessages string json json
  | GmailSendEmail string json json json
  | HubSpotSearchContacts string json
  | HubSpotCreateContact string json
  | HubSpotUpdateContact string json json
  | HubSpotCreateNote string json json
  | CalendarGetAvailableSlots string json json json
  | CalendarCreateEvent string json
  | CalendarSearchEvents string json json json
  | TaskCreate json
  | TaskUpdate json json
  | ChatCompletion "message list" bool
  | ExecuteToolCall json

record world =
  emailEmbedding :: "email_row list"
  hubSpotContactEmbedding :: "contact_row list"
  db_error :: "event list \<Rightarrow> event \<Rightarrow> error option"
  vector_distance :: "vector \<Rightarrow> vector \<Rightarrow> real"
  embedQuery :: "event list \<Rightarrow> string \<Rightarrow> error + vector"
  findUnique :: "event list \<Rightarrow> string \<Rightarrow> bool \<Rightarrow> error + user option"
  getProfile :: "event list \<Rightarrow> string \<Rightarrow> error option"
  collaborator :: "event list \<Rightarrow> event \<Rightarrow> error + json"
  completions_create :: "event list \<Rightarrow> message list \<Rightarrow> bool \<Rightarrow> error + assistant_message list"
  toLowerCase :: "string \<Rightarrow> string"
  contains_insensitive :: "string \<Rightarrow> string \<Rightarrow> bool"
  JSON_parse :: "string \<Rightarrow> error + json"
  JSON_stringify :: "json \<Rightarrow> string"
  JSON_stringify_indented :: "json \<Rightarrow> string"
  to_String :: "json \<Rightarrow> string"
  formatMeetingData :: "json \<Rightarrow> error + json"

text \<open>
  An asynchronous computation: from the trace so far to a value or a thrown error, and
  the trace after it. \<open>io_bind\<close> is \<open>await\<close> followed by the rest of the block,
  \<open>io_catch\<close> is \<open>try { ... } catch (error) { ... }\<close>.
\<close>

type_synonym 'a io = "event list \<Rightarrow> (error + 'a) \<times> event list"

definition io_return :: "'a \<Rightarrow> 'a io" where
  "io_return x = (\<lambda>tr. (Inr x, tr))"

definition io_throw :: "error \<Rightarrow> 'a io" where
  "io_throw e = (\<lambda>tr. (Inl e, tr))"

definition io_bind :: "'a io \<Rightarrow> ('a \<Rightarrow> 'b io) \<Rightarrow> 'b io" where
  "io_bind m f = (\<lambda>tr. case m tr of (Inl e, tr') \<Rightarrow> (Inl e, tr') | (Inr x, tr') \<Rightarrow> f x tr')"

definition io_catch :: "'a io \<Rightarrow> (error \<Rightarrow> 'a io) \<Rightarrow> 'a io" where
  "io_catch m h = (\<lambda>tr. case m tr of (Inl e, tr') \<Rightarrow> h e tr' | (Inr x, tr') \<Rightarrow> (Inr x, tr'))"

definition io_lift :: "error + 'a \<Rightarrow> 'a io" where
  "io_lift r = (\<lambda>tr. (r, tr))"

text \<open>An external call: its answer is read off the trace so far, then the call is recorded.\<close>

definition perform :: "event \<Rightarrow> (event list \<Rightarrow> error + 'a) \<Rightarrow> 'a io" where
  "perform ev answer = (\<lambda>tr. (answer tr, tr @ [ev]))"

section \<open>Strings\<close>

definition nl :: string where
  "nl = [CHR 0x0A]"

text \<open>
  A JavaScript string is represented by the bytes of its UTF-8 encoding. \<open>s.length\<close>
  counts UTF-16 code units: one for a character of one, two or three bytes, two for a
  character of four bytes (a surrogate pair), none for a continuation byte.
\<close>

definition utf16_units :: "char \<Rightarrow> nat" where
  "utf16_units c =
     (let n = (of_char c :: nat) in
      if n < 128 then 1 else if n < 192 then 0 else if n < 240 then 1 else 2)"

definition utf16_length :: "string \<Rightarrow> nat" where
  "utf16_length s = sum_list (map utf16_units s)"

text \<open>
  \<open>s.toLowerCase()\<close> follows the Unicode case mappings and is a parameter of the world
  (\<open>toLowerCase\<close>); it can lengthen a string.

  \<open>s.split(sep)\<close> for a one-character ASCII separator: \<open>''''.split(' ')\<close> is
  \<open>['''']\<close>. The byte of an ASCII character occurs in UTF-8 only as that character.
\<close>

fun str_split :: "char \<Rightarrow> string \<Rightarrow> string list" where
  "str_split sep [] = [[]]"
| "str_split sep (c # cs) =
     (if c = sep then [] # str_split sep cs
      else (case str_split sep cs of [] \<Rightarrow> [[c]] | w # ws \<Rightarrow> (c # w) # ws))"

text \<open>\<open>s.includes(t)\<close>: \<open>t\<close> occurs in \<open>s\<close> as a contiguous substring.\<close>

fun str_includes :: "string \<Rightarrow> string \<Rightarrow> bool" where
  "str_includes [] t = (t = [])"
| "str_includes (c # cs) t = (take (length t) (c # cs) = t \<or> str_includes cs t)"

text \<open>\<open>xs.join(sep)\<close>\<close>

fun join :: "string \<Rightarrow> string list \<Rightarrow> string" where
  "join sep [] = []"
| "join sep [x] = x"
| "join sep (x # y # ys) = x @ sep @ join sep (y # ys)"

text \<open>A nullable string inside a template literal: \<open>null\<close> prints as \<open>null\<close>.\<close>

fun tpl :: "string option \<Rightarrow> string" where
  "tpl None = ''null''"
| "tpl (Some s) = s"

section \<open>The context retriever (\<open>RAGService\<close>)\<close>

record rag_service =
  rag_isOpenAIAvailable :: bool
  rag_embeddings :: bool

datatype metadata =
    EmailMeta string string int
  | ContactRecord contact_row
  | ContactVectorRow contact_row "real option"

record hit =
  hit_type :: string
  hit_content :: string
  hit_metadata :: metadata
  hit_score :: "real option"

record search_result =
  emails :: "hit list"
  contacts :: "hit list"

text \<open>
  A database query: it throws when the database says so, and otherwise returns the rows
  the query denotes on the stored tables.
\<close>

definition db_query :: "world \<Rightarrow> event \<Rightarrow> 'r \<Rightarrow> 'r io" where
  "db_query w ev rows =
     perform ev (\<lambda>tr. case db_error w tr ev of Some e \<Rightarrow> Inl e | None \<Rightarrow> Inr rows)"

text \<open>
  \<open>ORDER BY embedding <=> q\<close>, ascending, as the query is written (the repository
  declares no index on the column): the operator is strict, so a NULL embedding has a
  NULL distance, and PostgreSQL sorts NULLs after every value in ascending order. No row
  is dropped by the ordering. Each row comes with its \<open>distance\<close> column; the distance
  itself is a parameter of the world.
\<close>

definition order_by_distance ::
  "(vector \<Rightarrow> vector \<Rightarrow> real) \<Rightarrow> vector \<Rightarrow> ('r \<Rightarrow> vector option) \<Rightarrow> 'r list \<Rightarrow> ('r \<times> real option) list" where
  "order_by_distance d q emb rows =
     map (\<lambda>(r, x). (r, Some x))
       (sort_key snd
          (List.map_filter (\<lambda>r. case emb r of Some v \<Rightarrow> Some (r, d v q) | None \<Rightarrow> None) rows))
     @ map (\<lambda>r. (r, None)) (filter (\<lambda>r. emb r = None) rows)"

text \<open>
  \<open>SELECT ..., embedding <=> q as distance FROM "EmailEmbedding"
  WHERE "userId" = userId ORDER BY embedding <=> q LIMIT limit\<close>
\<close>

definition emailVectorRows :: "world \<Rightarrow> string \<Rightarrow> vector \<Rightarrow> nat \<Rightarrow> (email_row \<times> real option) list" where
  "emailVectorRows w userId q limit =
     take limit (order_by_distance (vector_distance w) q e_embedding
       (filter (\<lambda>r. e_userId r = userId) (emailEmbedding w)))"

definition contactVectorRows :: "world \<Rightarrow> string \<Rightarrow> vector \<Rightarrow> nat \<Rightarrow> (contact_row \<times> real option) list" where
  "contactVectorRows w userId q limit =
     take limit (order_by_distance (vector_distance w) q c_embedding
       (filter (\<lambda>r. c_userId r = userId) (hubSpotContactEmbedding w)))"

text \<open>
  \<open>{ contains: term, mode: 'insensitive' }\<close> on a column is evaluated by the database
  (\<open>ILIKE\<close> with the term between wildcards) and is a parameter of the world
  (\<open>contains_insensitive w field term\<close>); a NULL column matches nothing.
\<close>

fun contains_insensitive_opt :: "world \<Rightarrow> string option \<Rightarrow> string \<Rightarrow> bool" where
  "contains_insensitive_opt w None term = False"
| "contains_insensitive_opt w (Some field) term = contains_insensitive w field term"

text \<open>
  The \<open>where\<close> clause of the two \<open>findMany\<close> calls: the user's rows for which the
  disjunction \<open>OR: searchTerms.map(...)\<close> holds; an empty \<open>OR\<close> list holds for no row.
\<close>

definition email_matches :: "world \<Rightarrow> string \<Rightarrow> string list \<Rightarrow> email_row \<Rightarrow> bool" where
  "email_matches w userId searchTerms r =
     (e_userId r = userId \<and>
      list_ex (\<lambda>term. contains_insensitive w (e_subject r) term
                    \<or> contains_insensitive w (e_body r) term
                    \<or> contains_insensitive w (e_from r) term) searchTerms)"

definition contact_matches :: "world \<Rightarrow> string \<Rightarrow> string list \<Rightarrow> contact_row \<Rightarrow> bool" where
  "contact_matches w userId searchTerms r =
     (c_userId r = userId \<and>
      list_ex (\<lambda>term. contains_insensitive_opt w (c_firstName r) term
                    \<or> contains_insensitive_opt w (c_lastName r) term
                    \<or> contains_insensitive_opt w (c_email r) term
                    \<or> contains_insensitive_opt w (c_company r) term
                    \<or> contains_insensitive_opt w (c_notes r) term) searchTerms)"

text \<open>
  \<open>findMany({ where, orderBy: { date: 'desc' }, take: limit })\<close>; \<open>limit\<close> is a
  number of rows (the callers pass 10, the default is 5).
\<close>

definition emailFindMany :: "world \<Rightarrow> string \<Rightarrow> string list \<Rightarrow> nat \<Rightarrow> email_row list" where
  "emailFindMany w userId searchTerms limit =
     take limit (sort_key (\<lambda>r. - e_date r) (filter (email_matches w userId searchTerms) (emailEmbedding w)))"

text \<open>\<open>findMany({ where, orderBy: { createdAt: 'desc' }, take: limit })\<close>\<close>

definition contactFindMany :: "world \<Rightarrow> string \<Rightarrow> string list \<Rightarrow> nat \<Rightarrow> contact_row list" where
  "contactFindMany w userId searchTerms limit =
     take limit (sort_key (\<lambda>r. - c_createdAt r) (filter (contact_matches w userId searchTerms) (hubSpotContactEmbedding w)))"

definition email_content :: "email_row \<Rightarrow> string" where
  "email_content email =
     ''Subject: '' @ e_subject email @ nl @ ''From: '' @ e_from email @ nl
     @ ''To: '' @ e_to email @ nl @ ''Body: '' @ e_body email"

definition contact_content :: "contact_row \<Rightarrow> string" where
  "contact_content contact =
     ''Name: '' @ tpl (c_firstName contact) @ '' '' @ tpl (c_lastName contact) @ nl
     @ ''Email: '' @ tpl (c_email contact) @ nl
     @ ''Company: '' @ tpl (c_company contact) @ nl
     @ ''Notes: '' @ tpl (c_notes contact)"

definition email_hit :: "email_row \<Rightarrow> real option \<Rightarrow> hit" where
  "email_hit email score =
     \<lparr>hit_type = ''email'', hit_content = email_content email,
      hit_metadata = EmailMeta (e_subject email) (e_from email) (e_date email),
      hit_score = score\<rparr>"

definition contact_hit :: "contact_row \<Rightarrow> metadata \<Rightarrow> real option \<Rightarrow> hit" where
  "contact_hit contact meta score =
     \<lparr>hit_type = ''contact'', hit_content = contact_content contact,
      hit_metadata = meta, hit_score = score\<rparr>"

text \<open>\<open>query.toLowerCase().split(' ').filter(term => term.length > 2)\<close>\<close>

definition searchTerms_of :: "world \<Rightarrow> string \<Rightarrow> string list" where
  "searchTerms_of w query =
     filter (\<lambda>term. utf16_length term > 2) (str_split CHR '' '' (toLowerCase w query))"

text \<open>\<open>simpleTextSearch\<close>: the lexical search, everything inside one \<open>try\<close>.\<close>

definition simpleTextSearch :: "world \<Rightarrow> string \<Rightarrow> string \<Rightarrow> nat \<Rightarrow> search_result io" where
  "simpleTextSearch w userId query limit =
     io_catch
       (let searchTerms = searchTerms_of w query in
        io_bind (db_query w (EmailFindMany userId searchTerms limit)
                   (emailFindMany w userId searchTerms limit)) (\<lambda>emailResults.
        io_bind (db_query w (ContactFindMany userId searchTerms limit)
                   (contactFindMany w userId searchTerms limit)) (\<lambda>contactResults.
        io_return
          \<lparr>emails = map (\<lambda>email. email_hit email (Some 0)) emailResults,
           contacts = map (\<lambda>contact. contact_hit contact (ContactRecord contact) (Some 0)) contactResults\<rparr>)))
       (\<lambda>error. io_return \<lparr>emails = [], contacts = []\<rparr>)"

text \<open>\<open>searchRelevantContext\<close>: the similarity search, falling back to the lexical one.\<close>

definition searchRelevantContext ::
  "world \<Rightarrow> rag_service \<Rightarrow> string \<Rightarrow> string \<Rightarrow> nat \<Rightarrow> search_result io" where
  "searchRelevantContext w rag userId query limit =
     io_catch
       (if \<not> rag_isOpenAIAvailable rag \<or> \<not> rag_embeddings rag
        then simpleTextSearch w userId query limit
        else
          io_bind (perform (EmbedQuery query) (\<lambda>tr. embedQuery w tr query)) (\<lambda>queryEmbedding.
          io_bind (db_query w (EmailVectorQuery userId queryEmbedding limit)
                     (emailVectorRows w userId queryEmbedding limit)) (\<lambda>emailResults.
          io_bind (db_query w (ContactVectorQuery userId queryEmbedding limit)
                     (contactVectorRows w userId queryEmbedding limit)) (\<lambda>contactResults.
          io_return
            \<lparr>emails = map (\<lambda>(email, distance). email_hit email distance) emailResults,
             contacts = map (\<lambda>(contact, distance).
                 contact_hit contact (ContactVectorRow contact distance) distance) contactResults\<rparr>))))
       (\<lambda>error. simpleTextSearch w userId query limit)"

text \<open>\<open>getContextForQuestion\<close>\<close>

definition getContextForQuestion :: "world \<Rightarrow> rag_service \<Rightarrow> string \<Rightarrow> string \<Rightarrow> string io" where
  "getContextForQuestion w rag userId question =
     io_bind (searchRelevantContext w rag userId question 10) (\<lambda>results.
     io_return (join (nl @ nl)
       (map (\<lambda>r. ''Email: '' @ hit_content r) (emails results)
        @ map (\<lambda>r. ''Contact: '' @ hit_content r) (contacts results))))"

section \<open>Service construction (\<open>GmailService\<close>, \<open>CalendarService\<close>, \<open>HubSpotService\<close>)\<close>

text \<open>A service object is represented by the access token it was constructed with.\<close>

definition user_findUnique :: "world \<Rightarrow> string \<Rightarrow> bool \<Rightarrow> user option io" where
  "user_findUnique w userId include_accounts =
     perform (UserFindUnique userId include_accounts) (\<lambda>tr. findUnique w tr userId include_accounts)"

text \<open>\<open>user?.accounts?.[0]?.access_token\<close>, when it is truthy.\<close>

definition first_access_token :: "user option \<Rightarrow> string option" where
  "first_access_token u =
     (case u of None \<Rightarrow> None
      | Some user \<Rightarrow>
          (case accounts user of [] \<Rightarrow> None
           | a # rest \<Rightarrow>
               (case access_token a of None \<Rightarrow> None
                | Some t \<Rightarrow> if t = [] then None else Some t)))"

text \<open>\<open>GmailService.createForUser\<close>: the stored token.\<close>

definition Gmail_createForUser :: "world \<Rightarrow> string \<Rightarrow> string io" where
  "Gmail_createForUser w userId =
     io_bind (user_findUnique w userId True) (\<lambda>user.
       case first_access_token user of
         None \<Rightarrow> io_throw (Error ''Gmail not connected for this user. Please sign in with Google to connect your Gmail account.'' None)
       | Some t \<Rightarrow> io_return t)"

text \<open>
  \<open>GmailService.createForUserWithSession\<close>: the session token, tested with a
  \<open>getProfile\<close> request; on any failure, the stored token.
\<close>

definition Gmail_createForUserWithSession :: "world \<Rightarrow> string \<Rightarrow> string \<Rightarrow> string io" where
  "Gmail_createForUserWithSession w userId sessionToken =
     io_catch
       (io_bind (perform (GmailGetProfile sessionToken)
                   (\<lambda>tr. case getProfile w tr sessionToken of Some e \<Rightarrow> Inl e | None \<Rightarrow> Inr ()))
          (\<lambda>profile. io_return sessionToken))
       (\<lambda>error. Gmail_createForUser w userId)"

definition Calendar_createForUser :: "world \<Rightarrow> string \<Rightarrow> string io" where
  "Calendar_createForUser w userId =
     io_bind (user_findUnique w userId True) (\<lambda>user.
       case first_access_token user of
         None \<Rightarrow> io_throw (Error ''Calendar not connected for this user'' None)
       | Some t \<Rightarrow> io_return t)"

definition HubSpot_createForUser :: "world \<Rightarrow> string \<Rightarrow> string io" where
  "HubSpot_createForUser w userId =
     io_bind (user_findUnique w userId False) (\<lambda>user.
       case (case user of None \<Rightarrow> None | Some u \<Rightarrow> hubspotAccessToken u) of
         None \<Rightarrow> io_throw (Error ''HubSpot not connected for this user'' None)
       | Some t \<Rightarrow> if t = [] then io_throw (Error ''HubSpot not connected for this user'' None)
                  else io_return t)"

section \<open>The agent (\<open>FinancialAdvisorAgent\<close>)\<close>

record agent =
  agent_userId :: string
  agent_sessionToken :: "string option"
  agent_isOpenAIAvailable :: bool
  agent_openai :: bool
  agent_rag :: rag_service

text \<open>The names declared by \<open>getTools\<close>, which are the \<open>case\<close> labels of \<open>executeToolCall\<close>.\<close>

definition tool_names :: "string list" where
  "tool_names =
     [''search_emails'', ''search_contacts'', ''create_contact'', ''update_contact'',
      ''add_contact_note'', ''send_email'', ''get_available_slots'', ''create_calendar_event'',
      ''search_calendar_events'', ''create_task'', ''update_task'']"

text \<open>A call of a collaborator method, answered by the outside world.\<close>

definition invoke :: "world \<Rightarrow> event \<Rightarrow> json io" where
  "invoke w ev = perform ev (\<lambda>tr. collaborator w tr ev)"

text \<open>\<open>String(v)\<close>, as a template literal and \<open>JSON.parse\<close> coerce their argument.\<close>

definition js_String :: "world \<Rightarrow> json \<Rightarrow> string" where
  "js_String w v = (case v of JStr s \<Rightarrow> s | _ \<Rightarrow> to_String w v)"

text \<open>
  The block both email tools start with: the session token when the agent has one
  (a truthy string), falling back to the stored token; the stored token otherwise.
\<close>

definition gmailForTool :: "world \<Rightarrow> agent \<Rightarrow> string io" where
  "gmailForTool w ag =
     (case agent_sessionToken ag of
        None \<Rightarrow> Gmail_createForUser w (agent_userId ag)
      | Some sessionToken \<Rightarrow>
          if sessionToken = [] then Gmail_createForUser w (agent_userId ag)
          else io_catch (Gmail_createForUserWithSession w (agent_userId ag) sessionToken)
                 (\<lambda>error. Gmail_createForUser w (agent_userId ag)))"

text \<open>\<open>parsedArgs.attendees?.map((email) => ({ email }))\<close>\<close>

fun attendees_of :: "json \<Rightarrow> error + json" where
  "attendees_of JUndefined = Inr JUndefined"
| "attendees_of JNull = Inr JUndefined"
| "attendees_of (JArr xs) = Inr (JArr (map (\<lambda>email. JObj [(''email'', email)]) xs))"
| "attendees_of v = Inl (TypeError ''parsedArgs.attendees?.map is not a function'')"

text \<open>
  The \<open>switch (name)\<close> of \<open>executeToolCall\<close>. A collaborator method is recorded with
  the argument values it is given; \<open>new Date(v)\<close> is recorded as \<open>v\<close>, and the
  \<open>new Date()\<close> of a completed task as the text \<open>new Date()\<close>.
\<close>

definition tool_switch :: "world \<Rightarrow> agent \<Rightarrow> json \<Rightarrow> json \<Rightarrow> json io" where
  "tool_switch w ag name parsedArgs =
    (if name = JStr ''search_emails'' then
       io_bind (gmailForTool w ag) (\<lambda>gmail.
       io_bind (io_lift (get_prop parsedArgs ''query'')) (\<lambda>query.
       io_bind (io_lift (get_prop parsedArgs ''maxResults'')) (\<lambda>maxResults.
       invoke w (GmailSearchMessages gmail query maxResults))))
     else if name = JStr ''search_contacts'' then
       io_bind (HubSpot_createForUser w (agent_userId ag)) (\<lambda>hubspot.
       io_bind (io_lift (get_prop parsedArgs ''query'')) (\<lambda>query.
       invoke w (HubSpotSearchContacts hubspot query)))
     else if name = JStr ''create_contact'' then
       io_bind (HubSpot_createForUser w (agent_userId ag)) (\<lambda>hubspotCreate.
       invoke w (HubSpotCreateContact hubspotCreate parsedArgs))
     else if name = JStr ''update_contact'' then
       io_bind (HubSpot_createForUser w (agent_userId ag)) (\<lambda>hubspotUpdate.
       io_bind (io_lift (get_prop parsedArgs ''contactId'')) (\<lambda>contactId.
       io_bind (io_lift (get_prop parsedArgs ''properties'')) (\<lambda>properties.
       invoke w (HubSpotUpdateContact hubspotUpdate contactId properties))))
     else if name = JStr ''add_contact_note'' then
       io_bind (HubSpot_createForUser w (agent_userId ag)) (\<lambda>hubspotNote.
       io_bind (io_lift (get_prop parsedArgs ''contactId'')) (\<lambda>contactId.
       io_bind (io_lift (get_prop parsedArgs ''note'')) (\<lambda>note.
       invoke w (HubSpotCreateNote hubspotNote contactId note))))
     else if name = JStr ''send_email'' then
       io_bind (gmailForTool w ag) (\<lambda>gmailSend.
       io_bind (io_lift (get_prop parsedArgs ''to'')) (\<lambda>to.
       io_bind (io_lift (get_prop parsedArgs ''subject'')) (\<lambda>subject.
       io_bind (io_lift (get_prop parsedArgs ''body'')) (\<lambda>body.
       invoke w (GmailSendEmail gmailSend to subject body)))))
     else if name = JStr ''get_available_slots'' then
       io_bind (Calendar_createForUser w (agent_userId ag)) (\<lambda>calendar.
       io_bind (io_lift (get_prop parsedArgs ''startDate'')) (\<lambda>startDate.
       io_bind (io_lift (get_prop parsedArgs ''endDate'')) (\<lambda>endDate.
       io_bind (io_lift (get_prop parsedArgs ''durationMinutes'')) (\<lambda>durationMinutes.
       invoke w (CalendarGetAvailableSlots calendar startDate endDate durationMinutes)))))
     else if name = JStr ''create_calendar_event'' then
       io_bind (Calendar_createForUser w (agent_userId ag)) (\<lambda>calendarCreate.
       io_bind (io_lift (get_prop parsedArgs ''summary'')) (\<lambda>summary.
       io_bind (io_lift (get_prop parsedArgs ''description'')) (\<lambda>description.
       io_bind (io_lift (get_prop parsedArgs ''start'')) (\<lambda>start.
       io_bind (io_lift (get_prop parsedArgs ''end'')) (\<lambda>end_time.
       io_bind (io_lift (get_prop parsedArgs ''attendees'')) (\<lambda>attendees.
       io_bind (io_lift (attendees_of attendees)) (\<lambda>attendee_objects.
       invoke w (CalendarCreateEvent calendarCreate
         (JObj [(''summary'', summary), (''description'', description),
                (''start'', JObj [(''dateTime'', start), (''timeZone'', JStr ''America/New_York'')]),
                (''end'', JObj [(''dateTime'', end_time), (''timeZone'', JStr ''America/New_York'')]),
                (''attendees'', attendee_objects)])))))))))
     else if name = JStr ''search_calendar_events'' then
       io_bind (Calendar_createForUser w (agent_userId ag)) (\<lambda>calendarSearch.
       io_bind (io_lift (get_prop parsedArgs ''query'')) (\<lambda>query.
       io_bind (io_lift (get_prop parsedArgs ''timeMin'')) (\<lambda>timeMin.
       io_bind (io_lift (get_prop parsedArgs ''timeMax'')) (\<lambda>timeMax.
       invoke w (CalendarSearchEvents calendarSearch query
         (if truthy timeMin then timeMin else JUndefined)
         (if truthy timeMax then timeMax else JUndefined))))))
     else if name = JStr ''create_task'' then
       io_bind (io_lift (get_prop parsedArgs ''title'')) (\<lambda>title.
       io_bind (io_lift (get_prop parsedArgs ''description'')) (\<lambda>description.
       io_bind (io_lift (get_prop parsedArgs ''priority'')) (\<lambda>priority.
       io_bind (io_lift (get_prop parsedArgs ''toolCalls'')) (\<lambda>toolCalls.
       io_bind (io_lift (get_prop parsedArgs ''context'')) (\<lambda>context.
       invoke w (TaskCreate
         (JObj [(''userId'', JStr (agent_userId ag)), (''title'', title),
                (''description'', description),
                (''priority'', if truthy priority then priority else JStr ''MEDIUM''),
                (''toolCalls'', toolCalls), (''context'', context)])))))))
     else if name = JStr ''update_task'' then
       io_bind (io_lift (get_prop parsedArgs ''taskId'')) (\<lambda>taskId.
       io_bind (io_lift (get_prop parsedArgs ''status'')) (\<lambda>status.
       io_bind (io_lift (get_prop parsedArgs ''result'')) (\<lambda>result.
       io_bind (io_lift (get_prop parsedArgs ''error'')) (\<lambda>err.
       invoke w (TaskUpdate taskId
         (JObj [(''status'', status), (''result'', result), (''error'', err),
                (''completedAt'', if status = JStr ''COMPLETED'' then JStr ''new Date()'' else JUndefined)]))))))
     else io_throw (Error (''Unknown tool: '' @ js_String w name) None))"

text \<open>
  \<open>executeToolCall\<close>: destructure \<open>toolCall.function\<close>, parse the arguments, dispatch.
\<close>

definition executeToolCall :: "world \<Rightarrow> agent \<Rightarrow> json \<Rightarrow> json io" where
  "executeToolCall w ag toolCall =
     io_bind (perform (ExecuteToolCall toolCall) (\<lambda>tr. Inr ())) (\<lambda>entered.
     io_bind (io_lift (get_prop toolCall ''function'')) (\<lambda>function.
     io_bind (io_lift (get_prop function ''name'')) (\<lambda>name.
     io_bind (io_lift (get_prop function ''arguments'')) (\<lambda>args.
     io_bind (io_lift (JSON_parse w (js_String w args))) (\<lambda>parsedArgs.
     tool_switch w ag name parsedArgs)))))"

text \<open>A tool call of the model's reply, as the object \<open>executeToolCall\<close> receives.\<close>

definition tool_call_value :: "tool_call \<Rightarrow> json" where
  "tool_call_value toolCall =
     JObj [(''id'', JStr (tc_id toolCall)), (''type'', JStr ''function''),
           (''function'', JObj [(''name'', JStr (tc_name toolCall)),
                                (''arguments'', JStr (tc_arguments toolCall))])]"

text \<open>
  The outcome pushed on \<open>toolResults\<close> for one call: the stringified result from the
  \<open>try\<close> block, the stringified \<open>{ error: message }\<close> from its \<open>catch\<close>.
\<close>

definition outcome_of :: "world \<Rightarrow> tool_call \<Rightarrow> error + json \<Rightarrow> tool_result" where
  "outcome_of w toolCall r =
     (case r of
        Inr result \<Rightarrow>
          \<lparr>tool_call_id = tc_id toolCall, tr_content = JSON_stringify w result\<rparr>
      | Inl error \<Rightarrow>
          \<lparr>tool_call_id = tc_id toolCall,
           tr_content = JSON_stringify w (JObj [(''error'', JStr (error_text error))])\<rparr>)"

text \<open>
  The loop of \<open>processMessage\<close> over \<open>messageResponse.tool_calls\<close>: each call inside
  its own \<open>try\<close>, its outcome pushed on \<open>toolResults\<close>.
\<close>

fun toolLoop ::
  "world \<Rightarrow> agent \<Rightarrow> tool_call list \<Rightarrow> tool_result list \<Rightarrow> event list \<Rightarrow> tool_result list \<times> event list" where
  "toolLoop w ag [] toolResults tr = (toolResults, tr)"
| "toolLoop w ag (toolCall # rest) toolResults tr =
     (case executeToolCall w ag (tool_call_value toolCall) tr of
        (r, tr') \<Rightarrow> toolLoop w ag rest (toolResults @ [outcome_of w toolCall r]) tr')"

section \<open>A chat turn (\<open>processMessage\<close>)\<close>

text \<open>
  What \<open>processMessage\<close> returns. \<open>resp_toolCalls = None\<close> is \<open>toolCalls: null\<close>;
  the fallback reply has no \<open>toolResults\<close> property (\<open>None\<close>) and is the only one
  with \<open>usage\<close>; \<open>meetingData\<close> is \<open>JNull\<close> for null and \<open>JUndefined\<close> when the
  property is absent.
\<close>

record agent_response =
  resp_content :: "string option"
  resp_toolCalls :: "tool_call list option"
  resp_toolResults :: "tool_result list option"
  resp_meetingData :: json
  resp_usage_total_tokens :: "nat option"

text \<open>\<open>user?.ongoingInstructions\<close>, when it is truthy.\<close>

definition instructions_of :: "user option \<Rightarrow> string option" where
  "instructions_of u =
     (case u of None \<Rightarrow> None
      | Some user \<Rightarrow>
          (case ongoingInstructions user of None \<Rightarrow> None
           | Some s \<Rightarrow> if s = [] then None else Some s))"

definition bullet :: string where
  "bullet = [CHR 0xE2, CHR 0x80, CHR 0xA2]"

definition dquote :: string where
  "dquote = [CHR 0x22]"

definition fallback_text :: "string \<Rightarrow> string \<Rightarrow> user option \<Rightarrow> string" where
  "fallback_text message context user =
     ''I understand you're asking about: '' @ message @ nl @ nl
     @ (if context \<noteq> [] then ''Based on your data, here's what I found:'' @ nl @ context @ nl @ nl else [])
     @ (case instructions_of user of
          Some instructions \<Rightarrow> ''Your ongoing instructions: '' @ instructions @ nl @ nl
        | None \<Rightarrow> [])
     @ ''I can help you with:'' @ nl
     @ bullet @ '' Searching through your emails'' @ nl
     @ bullet @ '' Managing your contacts'' @ nl
     @ bullet @ '' Scheduling appointments'' @ nl
     @ bullet @ '' Sending emails'' @ nl @ nl
     @ ''Note: AI-powered features are currently limited due to regional restrictions. Basic functionality is still available.''"

text \<open>\<open>handleFallbackResponse\<close>: the templated reply, built without the language model.\<close>

definition handleFallbackResponse :: "world \<Rightarrow> agent \<Rightarrow> string \<Rightarrow> agent_response io" where
  "handleFallbackResponse w ag message =
     io_catch
       (io_bind (getContextForQuestion w (agent_rag ag) (agent_userId ag) message) (\<lambda>context.
        io_bind (user_findUnique w (agent_userId ag) False) (\<lambda>user.
        io_return
          \<lparr>resp_content = Some (fallback_text message context user),
           resp_toolCalls = Some [], resp_toolResults = None,
           resp_meetingData = JUndefined, resp_usage_total_tokens = Some 0\<rparr>)))
       (\<lambda>error.
        io_return
          \<lparr>resp_content = Some ''I'm sorry, I'm experiencing technical difficulties. Please try again later or contact support.'',
           resp_toolCalls = Some [], resp_toolResults = None,
           resp_meetingData = JUndefined, resp_usage_total_tokens = Some 0\<rparr>)"

definition systemPrompt :: "user option \<Rightarrow> string \<Rightarrow> string" where
  "systemPrompt user context =
     ''You are an AI assistant for a Financial Advisor. You have access to their Gmail, Google Calendar, and HubSpot CRM.'' @ nl @ nl
     @ ''Your capabilities:'' @ nl
     @ ''- Answer questions about clients using information from emails and HubSpot'' @ nl
     @ ''- Schedule appointments and manage calendar'' @ nl
     @ ''- Send emails to clients'' @ nl
     @ ''- Create and update contacts in HubSpot'' @ nl
     @ ''- Create tasks that can be executed later'' @ nl
     @ ''- Be proactive based on ongoing instructions'' @ nl @ nl
     @ ''Ongoing Instructions: ''
     @ (case instructions_of user of Some instructions \<Rightarrow> instructions | None \<Rightarrow> ''None'') @ nl @ nl
     @ ''Context from emails and contacts:'' @ nl
     @ context @ nl @ nl
     @ ''Always be helpful, professional, and proactive. When scheduling appointments, always check availability first and provide multiple time options. When creating contacts, include relevant notes about the interaction.''"

text \<open>
  \<open>error && typeof error === 'object' && 'code' in error
  && error.code === 'unsupported_country_region_territory'\<close>
\<close>

definition is_region_error :: "error \<Rightarrow> bool" where
  "is_region_error e = (error_code e = Some ''unsupported_country_region_territory'')"

text \<open>\<open>this.openai.chat.completions.create\<close>, with or without the tool declarations.\<close>

definition chat_completions_create :: "world \<Rightarrow> message list \<Rightarrow> bool \<Rightarrow> assistant_message list io" where
  "chat_completions_create w messages with_tools =
     perform (ChatCompletion messages with_tools) (\<lambda>tr. completions_create w tr messages with_tools)"

text \<open>\<open>response.choices[0].message\<close>\<close>

definition first_choice :: "assistant_message list \<Rightarrow> error + assistant_message" where
  "first_choice choices =
     (case choices of
        [] \<Rightarrow> Inl (TypeError ''Cannot read properties of undefined (reading message)'')
      | m # rest \<Rightarrow> Inr m)"

text \<open>
  The meeting summary: the first \<open>search_calendar_events\<close> call, the first outcome with
  its id, parsed back; the projection of the events themselves formats dates in the
  host's locale and is a parameter of the world.
\<close>

definition meetingDataOf :: "world \<Rightarrow> tool_call list \<Rightarrow> tool_result list \<Rightarrow> error + json" where
  "meetingDataOf w tool_calls toolResults =
     (case find (\<lambda>tc. tc_name tc = ''search_calendar_events'') tool_calls of
        None \<Rightarrow> Inr JNull
      | Some calendarSearch \<Rightarrow>
          (case find (\<lambda>tr. tool_call_id tr = tc_id calendarSearch) toolResults of
             None \<Rightarrow> Inr JNull
           | Some calendarResult \<Rightarrow>
               (case JSON_parse w (tr_content calendarResult) of
                  Inl e \<Rightarrow> Inl e
                | Inr result \<Rightarrow>
                    if truthy result then
                      (case get_prop result ''error'' of
                         Inl e \<Rightarrow> Inl e
                       | Inr err \<Rightarrow> if \<not> truthy err then formatMeetingData w result else Inr JNull)
                    else Inr JNull)))"

text \<open>
  The body of \<open>if (messageResponse.tool_calls) { ... }\<close>: the loop, the second
  completion (without tool declarations), the meeting summary, the reply.
\<close>

definition toolRound ::
  "world \<Rightarrow> agent \<Rightarrow> message list \<Rightarrow> assistant_message \<Rightarrow> tool_call list \<Rightarrow> agent_response io" where
  "toolRound w ag messages messageResponse tool_calls =
     io_bind (\<lambda>tr. case toolLoop w ag tool_calls [] tr of
                      (toolResults, tr') \<Rightarrow> (Inr toolResults, tr')) (\<lambda>toolResults.
     io_bind (chat_completions_create w
                (messages @ [AssistantMsg messageResponse] @ map ToolMsg toolResults)
                False) (\<lambda>finalResponse.
     io_bind (io_lift (meetingDataOf w tool_calls toolResults)) (\<lambda>meetingData.
     io_bind (io_lift (first_choice finalResponse)) (\<lambda>finalMessage.
     io_return
       \<lparr>resp_content = am_content finalMessage,
        resp_toolCalls = Some tool_calls,
        resp_toolResults = Some toolResults,
        resp_meetingData = meetingData,
        resp_usage_total_tokens = None\<rparr>))))"

text \<open>
  The inner \<open>try\<close> of \<open>processMessage\<close> around the first completion (with the tool
  declarations). Its \<open>catch\<close> returns the fallback reply from \<open>processMessage\<close> on a
  region error (\<open>Inl\<close>) and rethrows any other error.
\<close>

definition firstCompletion ::
  "world \<Rightarrow> agent \<Rightarrow> string \<Rightarrow> message list \<Rightarrow> (agent_response + assistant_message list) io" where
  "firstCompletion w ag message messages =
     io_catch
       (io_bind (chat_completions_create w messages True) (\<lambda>response. io_return (Inr response)))
       (\<lambda>openaiError.
          if is_region_error openaiError
          then io_bind (handleFallbackResponse w ag message) (\<lambda>fallback. io_return (Inl fallback))
          else io_throw openaiError)"

text \<open>
  From \<open>const messageResponse = response.choices[0].message\<close> to the two \<open>return\<close>s
  of the \<open>try\<close> block.
\<close>

definition replyTo ::
  "world \<Rightarrow> agent \<Rightarrow> message list \<Rightarrow> assistant_message list \<Rightarrow> agent_response io" where
  "replyTo w ag messages response =
     io_bind (io_lift (first_choice response)) (\<lambda>messageResponse.
     case am_tool_calls messageResponse of
       Some tool_calls \<Rightarrow> toolRound w ag messages messageResponse tool_calls
     | None \<Rightarrow>
         io_return
           \<lparr>resp_content = am_content messageResponse,
            resp_toolCalls = None,
            resp_toolResults = Some [],
            resp_meetingData = JUndefined,
            resp_usage_total_tokens = None\<rparr>)"

text \<open>\<open>processMessage\<close>: the outer \<open>try\<close> wraps the whole body.\<close>

definition processMessage :: "world \<Rightarrow> agent \<Rightarrow> string \<Rightarrow> message list \<Rightarrow> agent_response io" where
  "processMessage w ag message conversationHistory =
     io_catch
       (if \<not> agent_isOpenAIAvailable ag \<or> \<not> agent_openai ag
        then handleFallbackResponse w ag message
        else
          io_bind (getContextForQuestion w (agent_rag ag) (agent_userId ag) message) (\<lambda>context.
          io_bind (user_findUnique w (agent_userId ag) False) (\<lambda>user.
          let messages = Msg ''system'' (systemPrompt user context)
                         # conversationHistory @ [Msg ''user'' message] in
          io_bind (firstCompletion w ag message messages) (\<lambda>first.
          case first of
            Inl fallback \<Rightarrow> io_return fallback
          | Inr response \<Rightarrow> replyTo w ag messages response))))
       (\<lambda>error.
          if is_region_error error then handleFallbackResponse w ag message else io_throw error)"

section \<open>A webhook event (\<open>processWebhookEvent\<close>)\<close>

text \<open>\<open>for (const toolCall of v)\<close>: the elements of an array, the characters of a string.\<close>

fun iterate :: "json \<Rightarrow> error + json list" where
  "iterate (JArr xs) = Inr xs"
| "iterate (JStr s) = Inr (map (\<lambda>c. JStr [c]) s)"
| "iterate v = Inl (TypeError ''action.toolCalls is not iterable'')"

text \<open>The loop of \<open>processWebhookEvent\<close>: one \<open>await this.executeToolCall(toolCall)\<close> after the other.\<close>

fun webhookLoop :: "world \<Rightarrow> agent \<Rightarrow> json list \<Rightarrow> event list \<Rightarrow> (error + unit) \<times> event list" where
  "webhookLoop w ag [] tr = (Inr (), tr)"
| "webhookLoop w ag (toolCall # rest) tr =
     (case executeToolCall w ag toolCall tr of
        (Inl e, tr') \<Rightarrow> (Inl e, tr')
      | (Inr result, tr') \<Rightarrow> webhookLoop w ag rest tr')"

definition webhookPrompt :: "world \<Rightarrow> string \<Rightarrow> json \<Rightarrow> string \<Rightarrow> string" where
  "webhookPrompt w eventType data instructions =
     ''A webhook event occurred: '' @ eventType @ nl
     @ ''Event data: '' @ JSON_stringify_indented w data @ nl @ nl
     @ ''Based on the ongoing instructions, should I take any action?'' @ nl
     @ ''Ongoing Instructions: '' @ instructions @ nl @ nl
     @ ''Respond with either:'' @ nl
     @ ''1. '' @ dquote @ ''NO_ACTION'' @ dquote @ '' if no action is needed'' @ nl
     @ ''2. A JSON object with the action to take, including tool calls if needed''"

definition processWebhookEvent :: "world \<Rightarrow> agent \<Rightarrow> string \<Rightarrow> json \<Rightarrow> unit io" where
  "processWebhookEvent w ag eventType data =
     io_catch
       (if \<not> agent_isOpenAIAvailable ag \<or> \<not> agent_openai ag then io_return ()
        else
          io_bind (user_findUnique w (agent_userId ag) False) (\<lambda>user.
          case instructions_of user of
            None \<Rightarrow> io_return ()
          | Some instructions \<Rightarrow>
              io_bind (chat_completions_create w
                         [Msg ''system'' ''You are an AI assistant that processes webhook events and decides on actions based on ongoing instructions.'',
                          Msg ''user'' (webhookPrompt w eventType data instructions)]
                         False) (\<lambda>response.
              io_bind (io_lift (first_choice response)) (\<lambda>messageResponse.
              let content = am_content messageResponse in
              if content = Some ''NO_ACTION'' then io_return ()
              else
                io_catch
                  (io_bind (io_lift (JSON_parse w
                              (case content of None \<Rightarrow> ''{}''
                               | Some c \<Rightarrow> if c = [] then ''{}'' else c))) (\<lambda>action.
                   io_bind (io_lift (get_prop action ''toolCalls'')) (\<lambda>toolCalls.
                   if truthy toolCalls
                   then io_bind (io_lift (iterate toolCalls)) (\<lambda>items. webhookLoop w ag items)
                   else io_return ())))
                  (\<lambda>parseError. io_return ())))))
       (\<lambda>error. io_return ())"

section \<open>Vocabulary of the properties\<close>

text \<open>The recency a hit was ranked by: the date of an email, the creation time of a contact.\<close>

definition hit_recency :: "hit \<Rightarrow> int" where
  "hit_recency h =
     (case hit_metadata h of
        EmailMeta subject sender date \<Rightarrow> date
      | ContactRecord c \<Rightarrow> c_createdAt c
      | ContactVectorRow c d \<Rightarrow> c_createdAt c)"

text \<open>The rows of \<open>order_by_distance\<close> that have a vector, in ascending distance.\<close>

definition with_vector ::
  "(vector \<Rightarrow> vector \<Rightarrow> real) \<Rightarrow> vector \<Rightarrow> ('r \<Rightarrow> vector option) \<Rightarrow> 'r list \<Rightarrow> ('r \<times> real option) list" where
  "with_vector d q emb rows =
     map (\<lambda>(r, x). (r, Some x))
       (sort_key snd
          (List.map_filter (\<lambda>r. case emb r of Some v \<Rightarrow> Some (r, d v q) | None \<Rightarrow> None) rows))"

text \<open>
  The order of \<open>ORDER BY ... ASC\<close> on a nullable column: NULL is greater than every value.
\<close>

definition nulls_last_le :: "real option \<Rightarrow> real option \<Rightarrow> bool" where
  "nulls_last_le a b =
     (case b of None \<Rightarrow> True
      | Some y \<Rightarrow> (case a of None \<Rightarrow> False | Some x \<Rightarrow> x \<le> y))"

text \<open>The value of \<open>embedding <=> q\<close>: NULL when the embedding is NULL.\<close>

definition distance_of :: "world \<Rightarrow> vector \<Rightarrow> vector option \<Rightarrow> real option" where
  "distance_of w q e = map_option (\<lambda>v. vector_distance w v q) e"

text \<open>
  \<open>ranked\<close> holds the rows, each once, every row with its distance, in ascending distance
  with the rows of NULL distance last.
\<close>

definition ranking_of ::
  "world \<Rightarrow> vector \<Rightarrow> ('r \<Rightarrow> vector option) \<Rightarrow> 'r list \<Rightarrow> ('r \<times> real option) list \<Rightarrow> bool" where
  "ranking_of w q emb rows ranked =
     (mset (map fst ranked) = mset rows
      \<and> sorted_wrt (\<lambda>a b. nulls_last_le (snd a) (snd b)) ranked
      \<and> list_all (\<lambda>(r, d). d = distance_of w q (emb r)) ranked)"

text \<open>
  Kinds of events: a completion request to the language model, an entry into the tool
  dispatcher, a call of the retrieval path (embedding, corpus queries, the lookup of the
  user's standing instructions), a lookup of the stored Google token.
\<close>

fun is_completion :: "event \<Rightarrow> bool" where
  "is_completion (ChatCompletion messages with_tools) = True"
| "is_completion e = False"

fun is_tool_entry :: "event \<Rightarrow> bool" where
  "is_tool_entry (ExecuteToolCall toolCall) = True"
| "is_tool_entry e = False"

fun is_retrieval :: "event \<Rightarrow> bool" where
  "is_retrieval (EmbedQuery text) = True"
| "is_retrieval (EmailVectorQuery userId q limit) = True"
| "is_retrieval (ContactVectorQuery userId q limit) = True"
| "is_retrieval (EmailFindMany userId terms limit) = True"
| "is_retrieval (ContactFindMany userId terms limit) = True"
| "is_retrieval (UserFindUnique userId include_accounts) = (\<not> include_accounts)"
| "is_retrieval e = False"

fun is_stored_token_lookup :: "event \<Rightarrow> bool" where
  "is_stored_token_lookup (UserFindUnique userId include_accounts) = include_accounts"
| "is_stored_token_lookup e = False"

text \<open>The completions and the dispatcher entries of a trace, in order.\<close>

definition turn_events :: "event list \<Rightarrow> event list" where
  "turn_events ext = filter (\<lambda>e. is_completion e \<or> is_tool_entry e) ext"

text \<open>A computation that only appends events of one kind to the trace.\<close>

definition only_events :: "(event \<Rightarrow> bool) \<Rightarrow> 'a io \<Rightarrow> bool" where
  "only_events P m = (\<forall>tr. \<exists>ext. snd (m tr) = tr @ ext \<and> list_all P ext)"

text \<open>The tool calls and the outcomes a reply carries (none when the property is null or absent).\<close>

definition calls_of :: "agent_response \<Rightarrow> tool_call list" where
  "calls_of r = (case resp_toolCalls r of None \<Rightarrow> [] | Some tcs \<Rightarrow> tcs)"

definition outcomes_of :: "agent_response \<Rightarrow> tool_result list" where
  "outcomes_of r = (case resp_toolResults r of None \<Rightarrow> [] | Some rs \<Rightarrow> rs)"

text \<open>Events that are neither a completion request nor an entry into the tool dispatcher.\<close>

definition quiet :: "event \<Rightarrow> bool" where
  "quiet e = (\<not> is_completion e \<and> \<not> is_tool_entry e)"

text \<open>
  The completions and dispatcher entries of a tool round: one entry per tool call of the
  reply \<open>m\<close>, in order, then the second completion, without tool declarations, on the
  transcript extended by the reply and the outcomes \<open>rs\<close>.
\<close>

definition tool_round_events ::
  "message list \<Rightarrow> assistant_message \<Rightarrow> tool_call list \<Rightarrow> tool_result list \<Rightarrow> event list" where
  "tool_round_events messages m tcs rs =
     map (\<lambda>tc. ExecuteToolCall (tool_call_value tc)) tcs
     @ [ChatCompletion (messages @ [AssistantMsg m] @ map ToolMsg rs) False]"

text \<open>A reply carries as many outcomes as tool calls, with the same ids in the same order.\<close>

definition balanced :: "agent_response \<Rightarrow> bool" where
  "balanced r = (length (outcomes_of r) = length (calls_of r)
                 \<and> map tool_call_id (outcomes_of r) = map tc_id (calls_of r))"

text \<open>The completions and dispatcher entries a chat turn can show.\<close>

definition turn_shape :: "event list \<Rightarrow> bool" where
  "turn_shape evs =
     (evs = []
      \<or> (\<exists>messages. evs = [ChatCompletion messages True])
      \<or> (\<exists>messages m tcs rs. am_tool_calls m = Some tcs \<and> length rs = length tcs
            \<and> map tool_call_id rs = map tc_id tcs
            \<and> evs = ChatCompletion messages True # tool_round_events messages m tcs rs))"

text \<open>
  An attempt to establish the Gmail service: the test request made with the session
  token, or the lookup of the stored token.
\<close>

fun is_credential_attempt :: "event \<Rightarrow> bool" where
  "is_credential_attempt (GmailGetProfile token) = True"
| "is_credential_attempt (UserFindUnique userId include_accounts) = include_accounts"
| "is_credential_attempt e = False"

section \<open>Sample data\<close>

text \<open>
  \<open>toLowerCase\<close> on texts made of ASCII characters and of U+0130 (capital I with dot
  above, bytes C4 B0), whose lower case is \<open>i\<close> followed by U+0307 (combining dot
  above, bytes CC 87).
\<close>

definition lower_ascii :: "char \<Rightarrow> char" where
  "lower_ascii c =
     (let n = (of_char c :: nat) in if 65 \<le> n \<and> n \<le> 90 then char_of (n + 32) else c)"

fun lower_sample :: "string \<Rightarrow> string" where
  "lower_sample [] = []"
| "lower_sample [c] = [lower_ascii c]"
| "lower_sample (c # d # rest) =
     (if c = CHR 0xC4 \<and> d = CHR 0xB0
      then CHR 0x69 # CHR 0xCC # CHR 0x87 # lower_sample rest
      else lower_ascii c # lower_sample (d # rest))"

text \<open>The cosine distance of two vectors, which is what \<open><=>\<close> computes.\<close>

definition dot :: "vector \<Rightarrow> vector \<Rightarrow> real" where
  "dot a b = sum_list (map2 (\<lambda>x y. x * y) a b)"

definition cosine_distance :: "vector \<Rightarrow> vector \<Rightarrow> real" where
  "cosine_distance a b = 1 - dot a b / (sqrt (dot a a) * sqrt (dot b b))"

text \<open>
  The square root of a real is not computed by evaluation; the distance is computed by
  rewriting with its definition.
\<close>

declare cosine_distance_def [code del]

definition email_m1 :: email_row where
  "email_m1 =
     \<lparr>e_id = ''m1'', e_userId = ''u1'', e_subject = ''Retirement planning'',
      e_from = ''John Smith'', e_to = ''advisor'',
      e_body = ''Can we review my plan?'', e_date = 300, e_embedding = Some [1, 0]\<rparr>"

definition email_m2 :: email_row where
  "email_m2 =
     \<lparr>e_id = ''m2'', e_userId = ''u1'', e_subject = ''Lunch'',
      e_from = ''Ann Lee'', e_to = ''advisor'',
      e_body = ''Noon, after the RETIREMENT seminar'', e_date = 100, e_embedding = None\<rparr>"

definition email_m3 :: email_row where
  "email_m3 =
     \<lparr>e_id = ''m3'', e_userId = ''u1'', e_subject = ''Account statement'',
      e_from = ''Bank'', e_to = ''advisor'',
      e_body = ''Your retirement account'', e_date = 200, e_embedding = Some [0, 1]\<rparr>"

definition email_m4 :: email_row where
  "email_m4 =
     \<lparr>e_id = ''m4'', e_userId = ''u2'', e_subject = ''Retirement'',
      e_from = ''Bob'', e_to = ''other'',
      e_body = ''Hello'', e_date = 400, e_embedding = Some [1, 0]\<rparr>"

definition contact_k1 :: contact_row where
  "contact_k1 =
     \<lparr>c_id = ''k1'', c_userId = ''u1'', c_firstName = Some ''John'', c_lastName = Some ''Smith'',
      c_email = Some ''john@example.com'', c_phone = None, c_company = Some ''Acme'',
      c_notes = Some ''Asked about retirement'', c_createdAt = 50, c_embedding = None\<rparr>"

definition contact_k2 :: contact_row where
  "contact_k2 =
     \<lparr>c_id = ''k2'', c_userId = ''u1'', c_firstName = Some ''Ann'', c_lastName = Some ''Lee'',
      c_email = Some ''ann@example.com'', c_phone = None, c_company = None,
      c_notes = Some ''Retirement in 2030'', c_createdAt = 60, c_embedding = Some [1, 1]\<rparr>"

definition sample_user :: user where
  "sample_user =
     \<lparr>ongoingInstructions = Some ''Reply to new clients'', hubspotAccessToken = Some ''hs'',
      accounts = [\<lparr>access_token = Some ''stored''\<rparr>]\<rparr>"

text \<open>
  A world where every call succeeds: the model answers \<open>Done.\<close> without tool calls, and
  the JSON functions know the two texts \<open>{}\<close> and \<open>[]\<close>. The distance is the cosine
  distance. A column contains a term when the lower case of the term occurs in the lower
  case of the column, which is what \<open>ILIKE\<close> gives for the terms used here: they hold
  neither \<open>%\<close> nor \<open>_\<close> nor a backslash.
\<close>

definition sample_world :: world where
  "sample_world =
     \<lparr>emailEmbedding = [email_m1, email_m2, email_m3, email_m4],
      hubSpotContactEmbedding = [contact_k1, contact_k2],
      db_error = (\<lambda>tr ev. None),
      vector_distance = cosine_distance,
      embedQuery = (\<lambda>tr text. Inr [1, 0]),
      findUnique = (\<lambda>tr userId include_accounts.
                      Inr (if userId = ''u1'' then Some sample_user else None)),
      getProfile = (\<lambda>tr token. None),
      collaborator = (\<lambda>tr ev. Inr (JArr [])),
      completions_create = (\<lambda>tr messages with_tools.
                      Inr [\<lparr>am_content = Some ''Done.'', am_tool_calls = None\<rparr>]),
      toLowerCase = lower_sample,
      contains_insensitive =
        (\<lambda>field term. str_includes (lower_sample field) (lower_sample term)),
      JSON_parse = (\<lambda>s. if s = ''{}'' then Inr (JObj [])
                         else if s = ''[]'' then Inr (JArr [])
                         else Inl (Error ''Unexpected end of JSON input'' None)),
      JSON_stringify = (\<lambda>v. case v of
                           JArr [] \<Rightarrow> ''[]''
                         | JObj [(k, JStr m)] \<Rightarrow> ''{'' @ k @ '':'' @ m @ ''}''
                         | _ \<Rightarrow> ''{}''),
      JSON_stringify_indented = (\<lambda>v. ''{}''),
      to_String = (\<lambda>v. ''undefined''),
      formatMeetingData = (\<lambda>v. Inr v)\<rparr>"

definition sample_rag :: rag_service where
  "sample_rag = \<lparr>rag_isOpenAIAvailable = True, rag_embeddings = True\<rparr>"

text \<open>A user without any stored item, an embedding provider and a database that always throw.\<close>

definition failing_world :: world where
  "failing_world =
     sample_world
       \<lparr>emailEmbedding := [], hubSpotContactEmbedding := [],
        db_error := (\<lambda>tr ev. Some (Error ''connection refused'' None)),
        embedQuery := (\<lambda>tr text. Inl (Error ''401 Incorrect API key provided'' None))\<rparr>"

text \<open>An agent whose completion client was never initialized, and one that is ready.\<close>

definition offline_agent :: agent where
  "offline_agent =
     \<lparr>agent_userId = ''u1'', agent_sessionToken = None,
      agent_isOpenAIAvailable = False, agent_openai = False,
      agent_rag = \<lparr>rag_isOpenAIAvailable = False, rag_embeddings = False\<rparr>\<rparr>"

definition online_agent :: agent where
  "online_agent =
     \<lparr>agent_userId = ''u1'', agent_sessionToken = Some ''session'',
      agent_isOpenAIAvailable = True, agent_openai = True,
      agent_rag = sample_rag\<rparr>"

definition tc_search :: tool_call where
  "tc_search = \<lparr>tc_id = ''call_1'', tc_name = ''search_calendar_events'', tc_arguments = ''{}''\<rparr>"

definition tc_create :: tool_call where
  "tc_create = \<lparr>tc_id = ''call_2'', tc_name = ''create_calendar_event'', tc_arguments = ''{}''\<rparr>"

definition tc_send :: tool_call where
  "tc_send = \<lparr>tc_id = ''call_3'', tc_name = ''send_email'', tc_arguments = ''{}''\<rparr>"

text \<open>
  A world without stored items where the model first asks for a calendar search and an
  event creation, and whose second reply asks for one more tool call; creating an event
  fails.
\<close>

definition tool_world :: world where
  "tool_world =
     sample_world
       \<lparr>emailEmbedding := [], hubSpotContactEmbedding := [],
        collaborator := (\<lambda>tr ev. case ev of
            CalendarCreateEvent token details \<Rightarrow> Inl (Error ''Invalid start time'' None)
          | _ \<Rightarrow> Inr (JArr [])),
        completions_create := (\<lambda>tr messages with_tools.
            if with_tools
            then Inr [\<lparr>am_content = None, am_tool_calls = Some [tc_search, tc_create]\<rparr>]
            else Inr [\<lparr>am_content = Some ''Your meeting is booked.'',
                       am_tool_calls = Some [tc_send]\<rparr>])\<rparr>"

text \<open>
  The transcript of the turn \<open>When is my next meeting?\<close> in that world, the model's first
  reply, and the trace when that reply arrives.
\<close>

definition tool_messages :: "message list" where
  "tool_messages =
     Msg ''system'' (systemPrompt (Some sample_user) [])
     # [] @ [Msg ''user'' ''When is my next meeting?'']"

definition tool_first_reply :: assistant_message where
  "tool_first_reply = \<lparr>am_content = None, am_tool_calls = Some [tc_search, tc_create]\<rparr>"

definition tool_first_trace :: "event list" where
  "tool_first_trace =
     [EmbedQuery ''When is my next meeting?'', EmailVectorQuery ''u1'' [1, 0] 10,
      ContactVectorQuery ''u1'' [1, 0] 10, UserFindUnique ''u1'' False,
      ChatCompletion tool_messages True]"

text \<open>The same world, where the second completion is refused for the region.\<close>

definition refusing_world :: world where
  "refusing_world =
     tool_world
       \<lparr>completions_create := (\<lambda>tr messages with_tools.
            if with_tools then Inr [tool_first_reply]
            else Inl (Error ''Country, region, or territory not supported''
                        (Some ''unsupported_country_region_territory'')))\<rparr>"

text \<open>Two invocations of a tool that does not exist: with an empty arguments text, with \<open>{}\<close>.\<close>

definition tc_unknown :: tool_call where
  "tc_unknown = \<lparr>tc_id = ''call_9'', tc_name = ''transfer_funds'', tc_arguments = ''''\<rparr>"

definition tc_unknown_parsed :: tool_call where
  "tc_unknown_parsed = \<lparr>tc_id = ''call_8'', tc_name = ''transfer_funds'', tc_arguments = ''{}''\<rparr>"

text \<open>
  A world where the session token is rejected, and one where in addition the user has no
  stored Google account.
\<close>

definition expired_session_world :: world where
  "expired_session_world =
     sample_world\<lparr>getProfile := (\<lambda>tr token. Some (Error ''Invalid Credentials'' None))\<rparr>"

definition disconnected_world :: world where
  "disconnected_world =
     sample_world
       \<lparr>getProfile := (\<lambda>tr token. Some (Error ''Invalid Credentials'' None)),
        findUnique := (\<lambda>tr userId include_accounts. Inr (Some (sample_user\<lparr>accounts := []\<rparr>)))\<rparr>"

text \<open>
  A webhook run: the user has standing instructions and no HubSpot token; the model
  answers with an action of two tool calls, a contact search and a task creation.
\<close>

definition webhook_action_text :: string where
  \<open>webhook_action_text =
     ''{"toolCalls":[{"function":{"name":"search_contacts","arguments":"{}"}},{"function":{"name":"create_task","arguments":"{}"}}]}''\<close>

definition webhook_call_1 :: json where
  "webhook_call_1 =
     JObj [(''function'', JObj [(''name'', JStr ''search_contacts''), (''arguments'', JStr ''{}'')])]"

definition webhook_call_2 :: json where
  "webhook_call_2 =
     JObj [(''function'', JObj [(''name'', JStr ''create_task''), (''arguments'', JStr ''{}'')])]"

definition webhook_agent :: agent where
  "webhook_agent =
     \<lparr>agent_userId = ''u1'', agent_sessionToken = None,
      agent_isOpenAIAvailable = True, agent_openai = True,
      agent_rag = sample_rag\<rparr>"

definition webhook_world :: world where
  "webhook_world =
     sample_world
       \<lparr>findUnique := (\<lambda>tr userId include_accounts.
            Inr (Some (sample_user\<lparr>hubspotAccessToken := None\<rparr>))),
        completions_create := (\<lambda>tr messages with_tools.
            Inr [\<lparr>am_content = Some webhook_action_text, am_tool_calls = None\<rparr>]),
        JSON_parse := (\<lambda>s. if s = webhook_action_text
                            then Inr (JObj [(''toolCalls'', JArr [webhook_call_1, webhook_call_2])])
                            else JSON_parse sample_world s)\<rparr>"

text \<open>
  The query of the two characters \<open>a\<close> and U+0130, and a world whose only email has the
  lower case of that query in its subject.
\<close>

definition dotted_query :: string where
  "dotted_query = [CHR 0x61, CHR 0xC4, CHR 0xB0]"

definition email_m5 :: email_row where
  "email_m5 =
     \<lparr>e_id = ''m5'', e_userId = ''u1'',
      e_subject = ''Kai'' @ [CHR 0xCC, CHR 0x87] @ '' report'',
      e_from = ''Office'', e_to = ''advisor'',
      e_body = ''Attached'', e_date = 500, e_embedding = None\<rparr>"

definition dotted_world :: world where
  "dotted_world = sample_world\<lparr>emailEmbedding := [email_m5], hubSpotContactEmbedding := []\<rparr>"

section \<open>The context retriever: properties\<close>

subsection \<open>The lexical search\<close>

lemma simpleTextSearch_cases:
  "fst (simpleTextSearch w userId query limit tr) = Inr \<lparr>emails = [], contacts = []\<rparr>
    \<or> fst (simpleTextSearch w userId query limit tr) =
        Inr \<lparr>emails = map (\<lambda>email. email_hit email (Some 0))
                       (emailFindMany w userId (searchTerms_of w query) limit),
              contacts = map (\<lambda>contact. contact_hit contact (ContactRecord contact) (Some 0))
                           (contactFindMany w userId (searchTerms_of w query) limit)\<rparr>"
  by (simp add: simpleTextSearch_def io_catch_def io_bind_def io_return_def db_query_def
      perform_def Let_def split: prod.splits sum.splits option.splits)

lemma simpleTextSearch_empty_corpus:
  "\<exists>r tr'. simpleTextSearch w userId query limit tr = (Inr r, tr')
     \<and> (emailEmbedding w = [] \<longrightarrow> emails r = [])
     \<and> (hubSpotContactEmbedding w = [] \<longrightarrow> contacts r = [])"
  using simpleTextSearch_cases[of w userId query limit tr]
  by (cases "simpleTextSearch w userId query limit tr")
     (auto simp add: emailFindMany_def contactFindMany_def)

lemma sorted_desc_take_sort_key:
  fixes f :: "'a \<Rightarrow> int"
  shows "sorted_wrt (\<lambda>a b. f b \<le> f a) (take n (sort_key (\<lambda>r. - f r) xs))"
proof -
  have "sorted (map (\<lambda>r. - f r) (sort_key (\<lambda>r. - f r) xs))" by (rule sorted_sort_key)
  then have "sorted_wrt (\<lambda>a b. f b \<le> f a) (sort_key (\<lambda>r. - f r) xs)"
    by (simp add: sorted_wrt_map)
  then show ?thesis by (rule sorted_wrt_take)
qed

lemma email_hits_sorted:
  "sorted_wrt (\<lambda>a b. hit_recency b \<le> hit_recency a)
     (map (\<lambda>email. email_hit email (Some 0)) (emailFindMany w userId terms limit))"
  using sorted_desc_take_sort_key[of e_date limit
          "filter (email_matches w userId terms) (emailEmbedding w)"]
  by (simp add: sorted_wrt_map emailFindMany_def hit_recency_def email_hit_def)

lemma contact_hits_sorted:
  "sorted_wrt (\<lambda>a b. hit_recency b \<le> hit_recency a)
     (map (\<lambda>contact. contact_hit contact (ContactRecord contact) (Some 0))
        (contactFindMany w userId terms limit))"
  using sorted_desc_take_sort_key[of c_createdAt limit
          "filter (contact_matches w userId terms) (hubSpotContactEmbedding w)"]
  by (simp add: sorted_wrt_map contactFindMany_def hit_recency_def contact_hit_def)

text \<open>
  C7. Every hit of the lexical search has score 0, and in each corpus the hits come
  most recent first.
\<close>

theorem lexical_hits_score_zero_newest_first:
  assumes "simpleTextSearch w userId query limit tr = (Inr r, tr')"
  shows "list_all (\<lambda>h. hit_score h = Some 0) (emails r @ contacts r)
       \<and> sorted_wrt (\<lambda>a b. hit_recency b \<le> hit_recency a) (emails r)
       \<and> sorted_wrt (\<lambda>a b. hit_recency b \<le> hit_recency a) (contacts r)"
proof -
  from simpleTextSearch_cases[of w userId query limit tr] assms
  consider (empty) "r = \<lparr>emails = [], contacts = []\<rparr>"
    | (found) "r = \<lparr>emails = map (\<lambda>email. email_hit email (Some 0))
                       (emailFindMany w userId (searchTerms_of w query) limit),
              contacts = map (\<lambda>contact. contact_hit contact (ContactRecord contact) (Some 0))
                           (contactFindMany w userId (searchTerms_of w query) limit)\<rparr>"
    by auto
  then show ?thesis
  proof cases
    case empty
    then show ?thesis by simp
  next
    case found
    have "list_all (\<lambda>h. hit_score h = Some 0) (emails r @ contacts r)"
      using found by (auto simp add: list_all_iff email_hit_def contact_hit_def)
    then show ?thesis using found email_hits_sorted contact_hits_sorted by simp
  qed
qed

theorem lexical_hits_score_zero_newest_first_witness:
  "simpleTextSearch sample_world ''u1'' ''Retirement of x'' 5 [] =
     (Inr \<lparr>emails = [email_hit email_m1 (Some 0), email_hit email_m3 (Some 0),
                      email_hit email_m2 (Some 0)],
            contacts = [contact_hit contact_k2 (ContactRecord contact_k2) (Some 0),
                        contact_hit contact_k1 (ContactRecord contact_k1) (Some 0)]\<rparr>,
      [EmailFindMany ''u1'' [''retirement''] 5, ContactFindMany ''u1'' [''retirement''] 5])
   \<and> list_all (\<lambda>h. hit_score h = Some 0)
        ([email_hit email_m1 (Some 0), email_hit email_m3 (Some 0), email_hit email_m2 (Some 0)]
         @ [contact_hit contact_k2 (ContactRecord contact_k2) (Some 0),
            contact_hit contact_k1 (ContactRecord contact_k1) (Some 0)])
   \<and> sorted_wrt (\<lambda>a b. hit_recency b \<le> hit_recency a)
        [email_hit email_m1 (Some 0), email_hit email_m3 (Some 0), email_hit email_m2 (Some 0)]
   \<and> sorted_wrt (\<lambda>a b. hit_recency b \<le> hit_recency a)
        [contact_hit contact_k2 (ContactRecord contact_k2) (Some 0),
         contact_hit contact_k1 (ContactRecord contact_k1) (Some 0)]"
proof -
  have run: "simpleTextSearch sample_world ''u1'' ''Retirement of x'' 5 [] =
     (Inr \<lparr>emails = [email_hit email_m1 (Some 0), email_hit email_m3 (Some 0),
                      email_hit email_m2 (Some 0)],
            contacts = [contact_hit contact_k2 (ContactRecord contact_k2) (Some 0),
                        contact_hit contact_k1 (ContactRecord contact_k1) (Some 0)]\<rparr>,
      [EmailFindMany ''u1'' [''retirement''] 5, ContactFindMany ''u1'' [''retirement''] 5])"
    by code_simp
  from lexical_hits_score_zero_newest_first[OF run] run show ?thesis by simp
qed

text \<open>
  C10, as the claim states it, fails: the length test is made on the tokens of the
  lower-cased query, and lower-casing can lengthen a token. The query of \<open>a\<close> and
  U+0130 is one token of length 2; its lower case has length 3, so the disjunction has
  one condition, and the email whose subject contains it is returned.
\<close>

theorem short_token_lengthened_by_lower_casing:
  "list_all (\<lambda>token. utf16_length token \<le> 2) (str_split CHR '' '' dotted_query)
   \<and> toLowerCase dotted_world dotted_query = [CHR 0x61, CHR 0x69, CHR 0xCC, CHR 0x87]
   \<and> utf16_length [CHR 0x61, CHR 0x69, CHR 0xCC, CHR 0x87] = 3
   \<and> searchTerms_of dotted_world dotted_query = [[CHR 0x61, CHR 0x69, CHR 0xCC, CHR 0x87]]
   \<and> simpleTextSearch dotted_world ''u1'' dotted_query 5 [] =
       (Inr \<lparr>emails = [email_hit email_m5 (Some 0)], contacts = []\<rparr>,
        [EmailFindMany ''u1'' [[CHR 0x61, CHR 0x69, CHR 0xCC, CHR 0x87]] 5,
         ContactFindMany ''u1'' [[CHR 0x61, CHR 0x69, CHR 0xCC, CHR 0x87]] 5])"
  by code_simp

text \<open>
  C10, amended. When no space-separated token of the lower-cased query is longer than 2
  (in UTF-16 code units), the list of search terms is empty, the empty disjunction holds
  for no stored item, and the lexical search returns two empty lists, whatever the
  corpora hold.
\<close>

theorem short_tokens_match_nothing:
  assumes "list_all (\<lambda>token. utf16_length token \<le> 2)
             (str_split CHR '' '' (toLowerCase w query))"
  shows "searchTerms_of w query = []
       \<and> \<not> email_matches w userId (searchTerms_of w query) email
       \<and> \<not> contact_matches w userId (searchTerms_of w query) contact
       \<and> fst (simpleTextSearch w userId query limit tr) = Inr \<lparr>emails = [], contacts = []\<rparr>"
proof -
  have terms: "searchTerms_of w query = []"
    using assms by (auto simp add: searchTerms_of_def list_all_iff filter_empty_conv)
  have "emailFindMany w userId [] limit = []" "contactFindMany w userId [] limit = []"
    by (simp_all add: emailFindMany_def contactFindMany_def email_matches_def contact_matches_def)
  then show ?thesis using terms simpleTextSearch_cases[of w userId query limit tr]
    by (auto simp add: email_matches_def contact_matches_def)
qed

theorem short_tokens_match_nothing_witness:
  "list_all (\<lambda>token. utf16_length token \<le> 2)
     (str_split CHR '' '' (toLowerCase sample_world ''A to DO''))
   \<and> searchTerms_of sample_world ''A to DO'' = []
   \<and> \<not> email_matches sample_world ''u1'' (searchTerms_of sample_world ''A to DO'') email_m1
   \<and> \<not> contact_matches sample_world ''u1'' (searchTerms_of sample_world ''A to DO'') contact_k1
   \<and> fst (simpleTextSearch sample_world ''u1'' ''A to DO'' 5 []) = Inr \<lparr>emails = [], contacts = []\<rparr>"
proof -
  have short: "list_all (\<lambda>token. utf16_length token \<le> 2)
     (str_split CHR '' '' (toLowerCase sample_world ''A to DO''))"
    by code_simp
  from short_tokens_match_nothing[OF short, of "''u1''" email_m1 contact_k1 5 "[]"] short
  show ?thesis by blast
qed

subsection \<open>No error leaves the retriever\<close>

lemma order_by_distance_Nil: "order_by_distance d q emb [] = []"
  by (simp add: order_by_distance_def List.map_filter_simps)

lemma searchRelevantContext_empty_corpus:
  "\<exists>r tr'. searchRelevantContext w rag userId query limit tr = (Inr r, tr')
     \<and> (emailEmbedding w = [] \<longrightarrow> emails r = [])
     \<and> (hubSpotContactEmbedding w = [] \<longrightarrow> contacts r = [])"
proof (cases "\<not> rag_isOpenAIAvailable rag \<or> \<not> rag_embeddings rag")
  case True
  obtain r tr' where "simpleTextSearch w userId query limit tr = (Inr r, tr')"
    and "emailEmbedding w = [] \<longrightarrow> emails r = []"
    and "hubSpotContactEmbedding w = [] \<longrightarrow> contacts r = []"
    using simpleTextSearch_empty_corpus[of w userId query limit tr] by blast
  then show ?thesis using True
    by (simp add: searchRelevantContext_def io_catch_def)
next
  case False
  let ?body = "io_bind (perform (EmbedQuery query) (\<lambda>tr. embedQuery w tr query)) (\<lambda>queryEmbedding.
          io_bind (db_query w (EmailVectorQuery userId queryEmbedding limit)
                     (emailVectorRows w userId queryEmbedding limit)) (\<lambda>emailResults.
          io_bind (db_query w (ContactVectorQuery userId queryEmbedding limit)
                     (contactVectorRows w userId queryEmbedding limit)) (\<lambda>contactResults.
          io_return
            \<lparr>emails = map (\<lambda>(email, distance). email_hit email distance) emailResults,
             contacts = map (\<lambda>(contact, distance).
                 contact_hit contact (ContactVectorRow contact distance) distance) contactResults\<rparr>)))"
  have eq: "searchRelevantContext w rag userId query limit
        = io_catch ?body (\<lambda>error. simpleTextSearch w userId query limit)"
    using False by (simp add: searchRelevantContext_def)
  show ?thesis
  proof (cases "?body tr")
    case (Pair a tr1)
    show ?thesis
    proof (cases a)
      case (Inl e)
      then have "searchRelevantContext w rag userId query limit tr
                   = simpleTextSearch w userId query limit tr1"
        using Pair eq by (simp add: io_catch_def)
      then show ?thesis
        using simpleTextSearch_empty_corpus[of w userId query limit tr1] by simp
    next
      case (Inr r)
      then have res: "searchRelevantContext w rag userId query limit tr = (Inr r, tr1)"
        using Pair eq by (simp add: io_catch_def)
      have "(emailEmbedding w = [] \<longrightarrow> emails r = [])
          \<and> (hubSpotContactEmbedding w = [] \<longrightarrow> contacts r = [])"
        using Pair Inr
        by (auto simp add: io_bind_def io_return_def db_query_def perform_def
            emailVectorRows_def contactVectorRows_def order_by_distance_Nil
            split: prod.splits sum.splits option.splits)
      then show ?thesis using res by simp
    qed
  qed
qed

text \<open>
  C3. \<open>searchRelevantContext\<close> and its fallback \<open>simpleTextSearch\<close> return a pair of
  lists for every user, query and limit, in every world (embedding provider available,
  unavailable or throwing, database answering or throwing), and an empty corpus gives an
  empty list.
\<close>

theorem context_retriever_never_raises:
  "(\<exists>r tr'. searchRelevantContext w rag userId query limit tr = (Inr r, tr')
       \<and> (emailEmbedding w = [] \<longrightarrow> emails r = [])
       \<and> (hubSpotContactEmbedding w = [] \<longrightarrow> contacts r = []))
   \<and> (\<exists>r tr'. simpleTextSearch w userId query limit tr = (Inr r, tr')
       \<and> (emailEmbedding w = [] \<longrightarrow> emails r = [])
       \<and> (hubSpotContactEmbedding w = [] \<longrightarrow> contacts r = []))"
  using searchRelevantContext_empty_corpus[of w rag userId query limit tr]
        simpleTextSearch_empty_corpus[of w userId query limit tr]
  by blast

theorem context_retriever_never_raises_witness:
  "emailEmbedding failing_world = [] \<and> hubSpotContactEmbedding failing_world = []
   \<and> (\<exists>r tr'. searchRelevantContext failing_world sample_rag ''u1'' ''retirement'' 5 [] = (Inr r, tr')
         \<and> emails r = [] \<and> contacts r = [])
   \<and> (\<exists>r tr'. simpleTextSearch failing_world ''u1'' ''retirement'' 5 [] = (Inr r, tr')
         \<and> emails r = [] \<and> contacts r = [])"
proof -
  have empty: "emailEmbedding failing_world = []" "hubSpotContactEmbedding failing_world = []"
    by (simp_all add: failing_world_def)
  from context_retriever_never_raises[of failing_world sample_rag "''u1''" "''retirement''" 5 "[]"]
    empty
  show ?thesis by simp
qed

subsection \<open>The similarity search and items without a vector\<close>

lemma order_by_distance_split:
  "order_by_distance d q emb rows
     = with_vector d q emb rows @ map (\<lambda>r. (r, None)) (filter (\<lambda>r. emb r = None) rows)"
  by (simp add: order_by_distance_def with_vector_def)

lemma length_with_vector:
  "length (with_vector d q emb rows) = length (filter (\<lambda>r. emb r \<noteq> None) rows)"
proof -
  have "(\<lambda>r. (case emb r of Some v \<Rightarrow> Some (r, d v q) | None \<Rightarrow> None) \<noteq> None)
          = (\<lambda>r. emb r \<noteq> None)"
    by (auto split: option.splits)
  then show ?thesis by (simp add: with_vector_def List.map_filter_def)
qed

lemma set_with_vector:
  "p \<in> set (with_vector d q emb rows) \<Longrightarrow> emb (fst p) \<noteq> None \<and> snd p \<noteq> None"
  by (auto simp add: with_vector_def List.map_filter_def split: option.splits)

lemma order_by_distance_nth:
  assumes "i < length (order_by_distance d q emb rows)"
  shows "(emb (fst (order_by_distance d q emb rows ! i)) = None)
           = (length (filter (\<lambda>r. emb r \<noteq> None) rows) \<le> i)"
proof -
  let ?A = "with_vector d q emb rows"
  let ?B = "map (\<lambda>r. (r, None :: real option)) (filter (\<lambda>r. emb r = None) rows)"
  have len: "length ?A = length (filter (\<lambda>r. emb r \<noteq> None) rows)"
    by (rule length_with_vector)
  have "(emb (fst (order_by_distance d q emb rows ! i)) = None) = (length ?A \<le> i)"
  proof (cases "i < length ?A")
    case True
    then have "(?A @ ?B) ! i \<in> set ?A" by (simp add: nth_append)
    then show ?thesis using True set_with_vector[of "(?A @ ?B) ! i" d q emb rows]
      by (simp add: order_by_distance_split)
  next
    case False
    then have "i - length ?A < length ?B" using assms by (simp add: order_by_distance_split)
    then have "?B ! (i - length ?A) \<in> set ?B" by (rule nth_mem)
    then have "(?A @ ?B) ! i \<in> set ?B" using False by (simp only: nth_append if_False)
    then show ?thesis using False by (auto simp add: order_by_distance_split)
  qed
  then show ?thesis using len by simp
qed

lemma length_order_by_distance: "length (order_by_distance d q emb rows) = length rows"
proof -
  have "length (filter (\<lambda>r. emb r \<noteq> None) rows) + length (filter (\<lambda>r. emb r = None) rows)
          = length rows"
    using sum_length_filter_compl[of "\<lambda>r. emb r \<noteq> None" rows] by simp
  then show ?thesis by (simp add: order_by_distance_split length_with_vector)
qed

lemma take_order_by_distance_nth:
  assumes "i < length (take limit (order_by_distance d q emb rows))"
  shows "(emb (fst (take limit (order_by_distance d q emb rows) ! i)) = None)
           = (length (filter (\<lambda>r. emb r \<noteq> None) rows) \<le> i)"
  using assms order_by_distance_nth[of i d q emb rows] by simp

lemma filter_filter_user:
  "filter (\<lambda>r. emb r \<noteq> None) (filter (\<lambda>r. uid r = userId) rows)
     = filter (\<lambda>r. uid r = userId \<and> emb r \<noteq> None) rows"
  by (induction rows) auto

lemma vector_path_result:
  assumes "rag_isOpenAIAvailable rag" and "rag_embeddings rag"
    and "embedQuery w tr query = Inr q"
    and "db_error w (tr @ [EmbedQuery query]) (EmailVectorQuery userId q limit) = None"
    and "db_error w (tr @ [EmbedQuery query, EmailVectorQuery userId q limit])
           (ContactVectorQuery userId q limit) = None"
  shows "searchRelevantContext w rag userId query limit tr =
           (Inr \<lparr>emails = map (\<lambda>(email, distance). email_hit email distance)
                            (emailVectorRows w userId q limit),
                 contacts = map (\<lambda>(contact, distance).
                              contact_hit contact (ContactVectorRow contact distance) distance)
                            (contactVectorRows w userId q limit)\<rparr>,
            tr @ [EmbedQuery query, EmailVectorQuery userId q limit,
                  ContactVectorQuery userId q limit])"
  using assms
  by (simp add: searchRelevantContext_def io_catch_def io_bind_def io_return_def
      db_query_def perform_def)

lemma map_filter_fst:
  "map fst (List.map_filter (\<lambda>r. case emb r of Some v \<Rightarrow> Some (r, d v q) | None \<Rightarrow> None) rows)
     = filter (\<lambda>r. emb r \<noteq> None) rows"
  by (induction rows) (auto simp add: List.map_filter_simps split: option.splits)

lemma mset_order_by_distance:
  "mset (map fst (order_by_distance d q emb rows)) = mset rows"
proof -
  let ?f = "\<lambda>r. case emb r of Some v \<Rightarrow> Some (r, d v q) | None \<Rightarrow> None"
  have "mset (map fst (sort_key snd (List.map_filter ?f rows)))
          = mset (map fst (List.map_filter ?f rows))"
    by (simp only: mset_map mset_sort)
  then have a: "mset (map fst (sort_key snd (List.map_filter ?f rows)))
          = mset (filter (\<lambda>r. emb r \<noteq> None) rows)"
    by (simp only: map_filter_fst)
  have b: "map fst (map (\<lambda>(r, x). (r, Some x)) (sort_key snd (List.map_filter ?f rows)))
          = map fst (sort_key snd (List.map_filter ?f rows))"
    by (simp add: case_prod_beta comp_def)
  have c: "map fst (map (\<lambda>r. (r, None :: real option)) (filter (\<lambda>r. emb r = None) rows))
          = filter (\<lambda>r. emb r = None) rows"
    by (simp add: comp_def)
  have "mset (filter (\<lambda>r. emb r \<noteq> None) rows) + mset (filter (\<lambda>r. emb r = None) rows)
          = mset rows"
    by (induction rows) auto
  then show ?thesis
    unfolding order_by_distance_def map_append mset_append b c a .
qed

lemma sorted_order_by_distance:
  "sorted_wrt (\<lambda>a b. nulls_last_le (snd a) (snd b)) (order_by_distance d q emb rows)"
proof -
  let ?f = "\<lambda>r. case emb r of Some v \<Rightarrow> Some (r, d v q) | None \<Rightarrow> None"
  let ?s = "sort_key snd (List.map_filter ?f rows)"
  have "sorted (map snd ?s)" by (rule sorted_sort_key)
  then have "sorted_wrt (\<lambda>a b. snd a \<le> snd b) ?s"
    by (simp add: sorted_wrt_map)
  then have "sorted_wrt (\<lambda>a b. nulls_last_le (snd a) (snd b))
               (map (\<lambda>(r, x). (r, Some x)) ?s)"
    by (simp add: sorted_wrt_map nulls_last_le_def case_prod_beta)
  moreover have "sorted_wrt (\<lambda>a b. nulls_last_le (snd a) (snd b))
               (map (\<lambda>r. (r, None :: real option)) (filter (\<lambda>r. emb r = None) rows))"
    by (simp add: sorted_wrt_map nulls_last_le_def)
  ultimately show ?thesis
    by (auto simp add: order_by_distance_def sorted_wrt_append nulls_last_le_def)
qed

lemma scores_order_by_distance:
  "list_all (\<lambda>(r, x). x = distance_of w q (emb r))
     (order_by_distance (vector_distance w) q emb rows)"
  by (auto simp add: order_by_distance_def list_all_iff distance_of_def List.map_filter_def
      split: option.splits)

lemma ranking_order_by_distance:
  "ranking_of w q emb rows (order_by_distance (vector_distance w) q emb rows)"
  unfolding ranking_of_def
  using mset_order_by_distance[of "vector_distance w" q emb rows]
    sorted_order_by_distance[of "vector_distance w" q emb rows]
    scores_order_by_distance[of w q emb rows]
  by blast

lemma take_all_with_vector:
  assumes "limit \<le> length (filter (\<lambda>r. emb r \<noteq> None) rows)"
  shows "list_all (\<lambda>(r, x). emb r \<noteq> None \<and> x \<noteq> None)
           (take limit (order_by_distance d q emb rows))"
proof -
  have "take limit (order_by_distance d q emb rows) = take limit (with_vector d q emb rows)"
    using assms by (simp add: order_by_distance_split length_with_vector)
  then have "set (take limit (order_by_distance d q emb rows)) \<subseteq> set (with_vector d q emb rows)"
    by (simp add: set_take_subset)
  then show ?thesis
    using set_with_vector[of _ d q emb rows] by (auto simp add: list_all_iff)
qed

lemma take_some_without_vector:
  assumes "length (filter (\<lambda>r. emb r \<noteq> None) rows) < min limit (length rows)"
  shows "\<exists>r. (r, None) \<in> set (take limit (order_by_distance d q emb rows))
             \<and> emb r = None \<and> r \<in> set rows"
proof -
  let ?A = "with_vector d q emb rows"
  let ?N = "filter (\<lambda>r. emb r = None) rows"
  let ?n = "length (filter (\<lambda>r. emb r \<noteq> None) rows)"
  have la: "length ?A = ?n" by (rule length_with_vector)
  have "length rows = ?n + length ?N"
    using sum_length_filter_compl[of "\<lambda>r. emb r \<noteq> None" rows] by simp
  then have ne: "?N \<noteq> []" using assms by auto
  then have mem: "hd ?N \<in> set ?N" by (rule hd_in_set)
  have "take limit (order_by_distance d q emb rows)
          = ?A @ take (limit - ?n) (map (\<lambda>r. (r, None)) ?N)"
    using assms la by (simp add: order_by_distance_split)
  moreover have "0 < limit - ?n" using assms by simp
  then have "(hd ?N, None) \<in> set (take (limit - ?n) (map (\<lambda>r. (r, None :: real option)) ?N))"
    using ne by (cases ?N; cases "limit - ?n") auto
  ultimately have "(hd ?N, None) \<in> set (take limit (order_by_distance d q emb rows))"
    by simp
  then show ?thesis using mem by (intro exI[of _ "hd ?N"]) simp
qed

lemma sample_distances:
  "cosine_distance [1, 0] [1, 0] = 0"
  "cosine_distance [0, 1] [1, 0] = 1"
  "cosine_distance [1, 1] [1, 0] = 1 - 1 / sqrt 2"
  by (simp_all add: cosine_distance_def dot_def)

lemma sample_email_rows:
  "emailVectorRows sample_world ''u1'' [1, 0] 5
     = [(email_m1, Some 0), (email_m3, Some 1), (email_m2, None)]"
  by (simp add: emailVectorRows_def order_by_distance_def sample_world_def List.map_filter_def
      email_m1_def email_m2_def email_m3_def email_m4_def sample_distances)

lemma sample_contact_rows:
  "contactVectorRows sample_world ''u1'' [1, 0] 5
     = [(contact_k2, Some (1 - 1 / sqrt 2)), (contact_k1, None)]"
  by (simp add: contactVectorRows_def order_by_distance_def sample_world_def List.map_filter_def
      contact_k1_def contact_k2_def sample_distances)




section \<open>The agent: properties\<close>

subsection \<open>Which events a computation appends to the trace\<close>

lemma only_events_return: "only_events P (io_return x)"
  by (simp add: only_events_def io_return_def)

lemma only_events_throw: "only_events P (io_throw e)"
  by (simp add: only_events_def io_throw_def)

lemma only_events_lift: "only_events P (io_lift r)"
  by (simp add: only_events_def io_lift_def)

lemma only_events_perform: "P ev \<Longrightarrow> only_events P (perform ev answer)"
  by (simp add: only_events_def perform_def)

lemma only_events_bind:
  assumes "only_events P m" and "\<And>x. only_events P (f x)"
  shows "only_events P (io_bind m f)"
  unfolding only_events_def
proof
  fix tr
  obtain ext1 where m: "snd (m tr) = tr @ ext1" "list_all P ext1"
    using assms(1) unfolding only_events_def by blast
  show "\<exists>ext. snd (io_bind m f tr) = tr @ ext \<and> list_all P ext"
  proof (cases "m tr")
    case (Pair a tr1)
    then have tr1: "tr1 = tr @ ext1" using m by simp
    show ?thesis
    proof (cases a)
      case (Inl e)
      then show ?thesis using Pair tr1 m by (simp add: io_bind_def)
    next
      case (Inr x)
      obtain ext2 where f: "snd (f x tr1) = tr1 @ ext2" "list_all P ext2"
        using assms(2)[of x] unfolding only_events_def by blast
      then have "snd (io_bind m f tr) = tr @ (ext1 @ ext2)" "list_all P (ext1 @ ext2)"
        using Pair Inr tr1 m by (simp_all add: io_bind_def)
      then show ?thesis by blast
    qed
  qed
qed

lemma only_events_catch:
  assumes "only_events P m" and "\<And>e. only_events P (h e)"
  shows "only_events P (io_catch m h)"
  unfolding only_events_def
proof
  fix tr
  obtain ext1 where m: "snd (m tr) = tr @ ext1" "list_all P ext1"
    using assms(1) unfolding only_events_def by blast
  show "\<exists>ext. snd (io_catch m h tr) = tr @ ext \<and> list_all P ext"
  proof (cases "m tr")
    case (Pair a tr1)
    then have tr1: "tr1 = tr @ ext1" using m by simp
    show ?thesis
    proof (cases a)
      case (Inr x)
      then show ?thesis using Pair tr1 m by (simp add: io_catch_def)
    next
      case (Inl e)
      obtain ext2 where f: "snd (h e tr1) = tr1 @ ext2" "list_all P ext2"
        using assms(2)[of e] unfolding only_events_def by blast
      then have "snd (io_catch m h tr) = tr @ (ext1 @ ext2)" "list_all P (ext1 @ ext2)"
        using Pair Inl tr1 m by (simp_all add: io_catch_def)
      then show ?thesis by blast
    qed
  qed
qed

lemma only_events_db_query: "P ev \<Longrightarrow> only_events P (db_query w ev rows)"
  by (simp add: db_query_def only_events_perform)

lemma simpleTextSearch_retrieval: "only_events is_retrieval (simpleTextSearch w userId query limit)"
  unfolding simpleTextSearch_def Let_def
  by (intro only_events_catch only_events_bind only_events_db_query only_events_return) simp_all

lemma searchRelevantContext_retrieval:
  "only_events is_retrieval (searchRelevantContext w rag userId query limit)"
  unfolding searchRelevantContext_def
  by (auto intro!: only_events_catch only_events_bind only_events_db_query only_events_return
      only_events_perform simpleTextSearch_retrieval)

lemma getContextForQuestion_retrieval:
  "only_events is_retrieval (getContextForQuestion w rag userId question)"
  unfolding getContextForQuestion_def
  by (intro only_events_bind only_events_return searchRelevantContext_retrieval)

lemma user_findUnique_retrieval: "only_events is_retrieval (user_findUnique w userId False)"
  by (simp add: user_findUnique_def only_events_perform)

lemma handleFallbackResponse_retrieval:
  "only_events is_retrieval (handleFallbackResponse w ag message)"
  unfolding handleFallbackResponse_def
  by (intro only_events_catch only_events_bind only_events_return
      getContextForQuestion_retrieval user_findUnique_retrieval)

lemma handleFallbackResponse_returns:
  "\<exists>r tr'. handleFallbackResponse w ag message tr = (Inr r, tr')
      \<and> resp_toolCalls r = Some [] \<and> resp_toolResults r = None
      \<and> (\<exists>s. resp_content r = Some s \<and> s \<noteq> [])"
  by (simp add: handleFallbackResponse_def io_catch_def io_bind_def io_return_def fallback_text_def
      split: prod.splits sum.splits)

subsection \<open>The fallback reply\<close>

lemma retrieval_turn_events: "list_all is_retrieval ext \<Longrightarrow> turn_events ext = []"
proof (induction ext)
  case Nil
  then show ?case by (simp add: turn_events_def)
next
  case (Cons e ext)
  then show ?case by (cases e) (simp_all add: turn_events_def)
qed

text \<open>
  C4. When the completion provider is flagged unavailable, \<open>processMessage\<close> returns a
  reply with a non-empty text and an empty list of tool calls; the turn performs only
  calls of the retrieval path: no completion request and no entry into the tool
  dispatcher.
\<close>

theorem fallback_without_model:
  assumes "\<not> agent_isOpenAIAvailable ag \<or> \<not> agent_openai ag"
  shows "\<exists>r ext. processMessage w ag message conversationHistory tr = (Inr r, tr @ ext)
           \<and> list_all is_retrieval ext
           \<and> turn_events ext = []
           \<and> resp_toolCalls r = Some []
           \<and> (\<exists>s. resp_content r = Some s \<and> s \<noteq> [])"
proof -
  obtain r tr' where run: "handleFallbackResponse w ag message tr = (Inr r, tr')"
    and calls: "resp_toolCalls r = Some []"
    and nonempty: "\<exists>s. resp_content r = Some s \<and> s \<noteq> []"
    using handleFallbackResponse_returns[of w ag message tr] by blast
  obtain ext where ext: "snd (handleFallbackResponse w ag message tr) = tr @ ext"
    and kinds: "list_all is_retrieval ext"
    using handleFallbackResponse_retrieval[of w ag message] unfolding only_events_def by blast
  have "processMessage w ag message conversationHistory tr = (Inr r, tr @ ext)"
    using assms run ext by (auto simp add: processMessage_def io_catch_def)
  then show ?thesis using kinds calls nonempty retrieval_turn_events[OF kinds] by blast
qed

theorem fallback_without_model_witness:
  "\<not> agent_isOpenAIAvailable offline_agent
   \<and> (\<exists>r ext. processMessage sample_world offline_agent ''retirement'' [] [] = (Inr r, [] @ ext)
           \<and> list_all is_retrieval ext
           \<and> turn_events ext = []
           \<and> resp_toolCalls r = Some []
           \<and> (\<exists>s. resp_content r = Some s \<and> s \<noteq> []))
   \<and> snd (processMessage sample_world offline_agent ''retirement'' [] []) =
        [EmailFindMany ''u1'' [''retirement''] 10, ContactFindMany ''u1'' [''retirement''] 10,
         UserFindUnique ''u1'' False]"
proof -
  have off: "\<not> agent_isOpenAIAvailable offline_agent" by (simp add: offline_agent_def)
  then have hyp: "\<not> agent_isOpenAIAvailable offline_agent \<or> \<not> agent_openai offline_agent" by simp
  have tr: "snd (processMessage sample_world offline_agent ''retirement'' [] []) =
        [EmailFindMany ''u1'' [''retirement''] 10, ContactFindMany ''u1'' [''retirement''] 10,
         UserFindUnique ''u1'' False]"
    by code_simp
  from fallback_without_model[OF hyp, of sample_world "''retirement''" "[]" "[]"] off tr
  show ?thesis by blast
qed

subsection \<open>The dispatcher and the tool loop\<close>

lemma invoke_quiet: "quiet ev \<Longrightarrow> only_events quiet (invoke w ev)"
  by (simp add: invoke_def only_events_perform)

lemma user_findUnique_quiet: "only_events quiet (user_findUnique w userId b)"
  by (simp add: user_findUnique_def only_events_perform quiet_def)

lemma Gmail_createForUser_quiet: "only_events quiet (Gmail_createForUser w userId)"
  unfolding Gmail_createForUser_def
  by (auto intro!: only_events_bind user_findUnique_quiet only_events_throw only_events_return
      split: option.splits)

lemma Calendar_createForUser_quiet: "only_events quiet (Calendar_createForUser w userId)"
  unfolding Calendar_createForUser_def
  by (auto intro!: only_events_bind user_findUnique_quiet only_events_throw only_events_return
      split: option.splits)

lemma HubSpot_createForUser_quiet: "only_events quiet (HubSpot_createForUser w userId)"
  unfolding HubSpot_createForUser_def
  by (auto intro!: only_events_bind user_findUnique_quiet only_events_throw only_events_return
      split: option.splits)

lemma Gmail_createForUserWithSession_quiet:
  "only_events quiet (Gmail_createForUserWithSession w userId t)"
  unfolding Gmail_createForUserWithSession_def
  by (auto intro!: only_events_catch only_events_bind only_events_perform only_events_return
      Gmail_createForUser_quiet simp add: quiet_def)

lemma gmailForTool_quiet: "only_events quiet (gmailForTool w ag)"
  unfolding gmailForTool_def
  by (auto intro!: only_events_catch Gmail_createForUserWithSession_quiet Gmail_createForUser_quiet
      split: option.splits)

lemma only_events_if:
  "only_events P a \<Longrightarrow> only_events P b \<Longrightarrow> only_events P (if c then a else b)"
  by simp

lemma tool_switch_quiet: "only_events quiet (tool_switch w ag name parsedArgs)"
  unfolding tool_switch_def
  by (intro only_events_if only_events_bind only_events_lift only_events_throw invoke_quiet
      gmailForTool_quiet HubSpot_createForUser_quiet Calendar_createForUser_quiet)
     (simp_all add: quiet_def)

lemma executeToolCall_trace:
  "\<exists>rest. snd (executeToolCall w ag toolCall tr) = tr @ ExecuteToolCall toolCall # rest
      \<and> list_all quiet rest"
proof -
  let ?k = "\<lambda>entered :: unit. io_bind (io_lift (get_prop toolCall ''function'')) (\<lambda>function.
     io_bind (io_lift (get_prop function ''name'')) (\<lambda>name.
     io_bind (io_lift (get_prop function ''arguments'')) (\<lambda>args.
     io_bind (io_lift (JSON_parse w (js_String w args))) (\<lambda>parsedArgs.
     tool_switch w ag name parsedArgs))))"
  have "only_events quiet (?k ())"
    by (intro only_events_bind only_events_lift tool_switch_quiet)
  then obtain rest where "snd (?k () (tr @ [ExecuteToolCall toolCall])) = (tr @ [ExecuteToolCall toolCall]) @ rest"
    and "list_all quiet rest"
    unfolding only_events_def by blast
  moreover have "executeToolCall w ag toolCall tr = ?k () (tr @ [ExecuteToolCall toolCall])"
    by (simp add: executeToolCall_def io_bind_def perform_def)
  ultimately show ?thesis by simp
qed

lemma toolLoop_acc:
  "toolLoop w ag tcs acc tr
     = (acc @ fst (toolLoop w ag tcs [] tr), snd (toolLoop w ag tcs [] tr))"
proof (induction tcs arbitrary: acc tr)
  case Nil
  then show ?case by simp
next
  case (Cons tc tcs)
  obtain r tr1 where step: "executeToolCall w ag (tool_call_value tc) tr = (r, tr1)"
    by (cases "executeToolCall w ag (tool_call_value tc) tr")
  show ?case
    using Cons.IH[of "acc @ [outcome_of w tc r]" tr1] Cons.IH[of "[outcome_of w tc r]" tr1] step
    by simp
qed

lemma toolLoop_Cons:
  "toolLoop w ag (tc # tcs) [] tr =
     (case executeToolCall w ag (tool_call_value tc) tr of
        (r, tr1) \<Rightarrow> (case toolLoop w ag tcs [] tr1 of
           (rs, tr2) \<Rightarrow> (outcome_of w tc r # rs, tr2)))"
proof -
  obtain r tr1 where step: "executeToolCall w ag (tool_call_value tc) tr = (r, tr1)"
    by (cases "executeToolCall w ag (tool_call_value tc) tr")
  show ?thesis using step toolLoop_acc[of w ag tcs "[outcome_of w tc r]" tr1]
    by (simp split: prod.splits)
qed

lemma toolLoop_append:
  "toolLoop w ag (tcs1 @ tcs2) [] tr =
     (case toolLoop w ag tcs1 [] tr of
        (rs1, tr1) \<Rightarrow> (case toolLoop w ag tcs2 [] tr1 of
           (rs2, tr2) \<Rightarrow> (rs1 @ rs2, tr2)))"
proof (induction tcs1 arbitrary: tr)
  case Nil
  then show ?case by (simp split: prod.splits)
next
  case (Cons tc tcs1)
  show ?case
    unfolding append_Cons toolLoop_Cons
    by (simp add: Cons.IH del: toolLoop.simps split: prod.splits)
qed

lemma outcome_of_id: "tool_call_id (outcome_of w tc r) = tc_id tc"
  by (cases r) (simp_all add: outcome_of_def)

lemma toolLoop_ids:
  "map tool_call_id (fst (toolLoop w ag tcs [] tr)) = map tc_id tcs"
proof (induction tcs arbitrary: tr)
  case Nil
  then show ?case by simp
next
  case (Cons tc tcs)
  obtain r tr1 where step: "executeToolCall w ag (tool_call_value tc) tr = (r, tr1)"
    by (cases "executeToolCall w ag (tool_call_value tc) tr")
  show ?case using Cons.IH[of tr1] step
    by (auto simp add: toolLoop_Cons outcome_of_id simp del: toolLoop.simps split: prod.splits)
qed

lemma toolLoop_length: "length (fst (toolLoop w ag tcs [] tr)) = length tcs"
  using toolLoop_ids[of w ag tcs tr] by (metis length_map)

lemma turn_events_append: "turn_events (a @ b) = turn_events a @ turn_events b"
  by (simp add: turn_events_def)

lemma quiet_turn_events: "list_all quiet ext \<Longrightarrow> turn_events ext = []"
  by (induction ext) (simp_all add: turn_events_def quiet_def)

lemma toolLoop_trace:
  "\<exists>ext. snd (toolLoop w ag tcs [] tr) = tr @ ext
      \<and> turn_events ext = map (\<lambda>tc. ExecuteToolCall (tool_call_value tc)) tcs"
proof (induction tcs arbitrary: tr)
  case Nil
  then show ?case by (simp add: turn_events_def)
next
  case (Cons tc tcs)
  obtain r tr1 where step: "executeToolCall w ag (tool_call_value tc) tr = (r, tr1)"
    by (cases "executeToolCall w ag (tool_call_value tc) tr")
  obtain rest where rest: "tr1 = tr @ ExecuteToolCall (tool_call_value tc) # rest" "list_all quiet rest"
    using executeToolCall_trace[of w ag "tool_call_value tc" tr] step by auto
  obtain ext where ext: "snd (toolLoop w ag tcs [] tr1) = tr1 @ ext"
    "turn_events ext = map (\<lambda>tc. ExecuteToolCall (tool_call_value tc)) tcs"
    using Cons.IH[of tr1] by blast
  have "snd (toolLoop w ag (tc # tcs) [] tr) = tr @ (ExecuteToolCall (tool_call_value tc) # rest @ ext)"
    using step rest ext by (auto simp add: toolLoop_Cons simp del: toolLoop.simps split: prod.splits)
  moreover have "turn_events (ExecuteToolCall (tool_call_value tc) # rest @ ext)
      = map (\<lambda>tc. ExecuteToolCall (tool_call_value tc)) (tc # tcs)"
    using quiet_turn_events[OF rest(2)] ext(2) turn_events_append[of rest ext]
    by (simp add: turn_events_def)
  ultimately show ?case by blast
qed

subsection \<open>The shape of a chat turn\<close>

lemma fallback_balanced:
  "handleFallbackResponse w ag message tr = (Inr r, tr') \<Longrightarrow> balanced r"
  using handleFallbackResponse_returns[of w ag message tr]
  by (auto simp add: balanced_def calls_of_def outcomes_of_def)

lemma fallback_trace:
  "\<exists>ext. snd (handleFallbackResponse w ag message tr) = tr @ ext \<and> list_all is_retrieval ext"
  using handleFallbackResponse_retrieval[of w ag message] unfolding only_events_def by blast

lemma toolRound_trace:
  "snd (toolRound w ag messages m tcs tr)
     = snd (toolLoop w ag tcs [] tr)
       @ [ChatCompletion (messages @ [AssistantMsg m] @ map ToolMsg (fst (toolLoop w ag tcs [] tr))) False]"
  by (simp add: toolRound_def io_bind_def io_lift_def io_return_def chat_completions_create_def
      perform_def split: prod.splits sum.splits)

lemma toolRound_result:
  "toolRound w ag messages m tcs tr = (Inr r, tr')
     \<Longrightarrow> resp_toolCalls r = Some tcs \<and> resp_toolResults r = Some (fst (toolLoop w ag tcs [] tr))"
  by (auto simp add: toolRound_def io_bind_def io_lift_def io_return_def chat_completions_create_def
      perform_def split: prod.splits sum.splits)

lemma toolRound_run:
  "\<exists>ext. snd (toolRound w ag messages m tcs tr) = tr @ ext
      \<and> turn_events ext = tool_round_events messages m tcs (fst (toolLoop w ag tcs [] tr))"
proof -
  obtain ext where ext: "snd (toolLoop w ag tcs [] tr) = tr @ ext"
    "turn_events ext = map (\<lambda>tc. ExecuteToolCall (tool_call_value tc)) tcs"
    using toolLoop_trace[of w ag tcs tr] by blast
  let ?c = "ChatCompletion (messages @ [AssistantMsg m] @ map ToolMsg (fst (toolLoop w ag tcs [] tr))) False"
  have "snd (toolRound w ag messages m tcs tr) = tr @ (ext @ [?c])"
    using ext(1) by (simp add: toolRound_trace)
  moreover have "turn_events (ext @ [?c]) = tool_round_events messages m tcs (fst (toolLoop w ag tcs [] tr))"
    using ext(2) by (simp add: turn_events_append tool_round_events_def) (simp add: turn_events_def)
  ultimately show ?thesis by blast
qed

lemma replyTo_run:
  "\<exists>ext. snd (replyTo w ag messages response tr) = tr @ ext
      \<and> (turn_events ext = []
          \<or> (\<exists>m tcs rs. am_tool_calls m = Some tcs \<and> length rs = length tcs
                \<and> map tool_call_id rs = map tc_id tcs
                \<and> turn_events ext = tool_round_events messages m tcs rs))
      \<and> (\<forall>r. fst (replyTo w ag messages response tr) = Inr r \<longrightarrow> balanced r)"
proof (cases response)
  case Nil
  then have "replyTo w ag messages response tr
      = (Inl (TypeError ''Cannot read properties of undefined (reading message)''), tr)"
    by (simp add: replyTo_def io_bind_def io_lift_def first_choice_def)
  then show ?thesis by (simp add: turn_events_def)
next
  case (Cons m rest)
  show ?thesis
  proof (cases "am_tool_calls m")
    case None
    then have "replyTo w ag messages response tr
      = (Inr \<lparr>resp_content = am_content m, resp_toolCalls = None, resp_toolResults = Some [],
              resp_meetingData = JUndefined, resp_usage_total_tokens = None\<rparr>, tr)"
      using Cons by (simp add: replyTo_def io_bind_def io_lift_def first_choice_def io_return_def)
    then show ?thesis by (simp add: turn_events_def balanced_def calls_of_def outcomes_of_def)
  next
    case (Some tcs)
    then have eq: "replyTo w ag messages response tr = toolRound w ag messages m tcs tr"
      using Cons by (simp add: replyTo_def io_bind_def io_lift_def first_choice_def)
    obtain ext where ext: "snd (toolRound w ag messages m tcs tr) = tr @ ext"
      "turn_events ext = tool_round_events messages m tcs (fst (toolLoop w ag tcs [] tr))"
      using toolRound_run[of w ag messages m tcs tr] by blast
    have bal: "\<forall>r. fst (toolRound w ag messages m tcs tr) = Inr r \<longrightarrow> balanced r"
    proof (intro allI impI)
      fix r assume "fst (toolRound w ag messages m tcs tr) = Inr r"
      then have "toolRound w ag messages m tcs tr = (Inr r, snd (toolRound w ag messages m tcs tr))"
        by (metis prod.collapse)
      from toolRound_result[OF this] show "balanced r"
        by (simp add: balanced_def calls_of_def outcomes_of_def toolLoop_length toolLoop_ids)
    qed
    show ?thesis
      using eq ext bal Some toolLoop_length[of w ag tcs tr] toolLoop_ids[of w ag tcs tr]
      by auto
  qed
qed

lemma firstCompletion_run:
  "\<exists>ext. snd (firstCompletion w ag message messages tr) = tr @ ChatCompletion messages True # ext
      \<and> list_all is_retrieval ext
      \<and> (\<forall>fb. fst (firstCompletion w ag message messages tr) = Inr (Inl fb) \<longrightarrow> balanced fb)"
proof (cases "completions_create w tr messages True")
  case (Inr response)
  then have "firstCompletion w ag message messages tr
      = (Inr (Inr response), tr @ [ChatCompletion messages True])"
    by (simp add: firstCompletion_def io_catch_def io_bind_def io_return_def
        chat_completions_create_def perform_def)
  then show ?thesis by simp
next
  case (Inl err)
  let ?tr1 = "tr @ [ChatCompletion messages True]"
  have first: "io_bind (chat_completions_create w messages True)
        (\<lambda>response. io_return (Inr response :: agent_response + assistant_message list)) tr
      = (Inl err, ?tr1)"
    using Inl by (simp add: io_bind_def chat_completions_create_def perform_def)
  show ?thesis
  proof (cases "is_region_error err")
    case False
    then have "firstCompletion w ag message messages tr = (Inl err, ?tr1)"
      using first by (simp add: firstCompletion_def io_catch_def io_throw_def)
    then show ?thesis by simp
  next
    case True
    obtain fb tr2 where fb: "handleFallbackResponse w ag message ?tr1 = (Inr fb, tr2)"
      using handleFallbackResponse_returns[of w ag message ?tr1] by blast
    obtain ext where ext: "tr2 = ?tr1 @ ext" "list_all is_retrieval ext"
      using fallback_trace[of w ag message ?tr1] fb by auto
    have "firstCompletion w ag message messages tr = (Inr (Inl fb), tr2)"
      using first True fb
      by (simp add: firstCompletion_def io_catch_def io_bind_def io_return_def)
    then show ?thesis using ext fallback_balanced[OF fb] by simp
  qed
qed

lemma outer_catch_run:
  fixes m :: "agent_response io"
  assumes "snd (m tr) = tr @ ext" and "\<forall>r. fst (m tr) = Inr r \<longrightarrow> balanced r"
  shows "\<exists>post. snd (io_catch m (\<lambda>error. if is_region_error error
                then handleFallbackResponse w ag message else io_throw error) tr) = tr @ ext @ post
      \<and> list_all is_retrieval post
      \<and> (\<forall>r. fst (io_catch m (\<lambda>error. if is_region_error error
                then handleFallbackResponse w ag message else io_throw error) tr) = Inr r
            \<longrightarrow> balanced r)"
proof (cases "m tr")
  case (Pair a tr1)
  then have tr1: "tr1 = tr @ ext" using assms(1) by simp
  show ?thesis
  proof (cases a)
    case (Inr x)
    then have "io_catch m (\<lambda>error. if is_region_error error
                then handleFallbackResponse w ag message else io_throw error) tr = (Inr x, tr1)"
      using Pair by (simp add: io_catch_def)
    then show ?thesis using tr1 assms(2) Pair Inr by simp
  next
    case (Inl e)
    show ?thesis
    proof (cases "is_region_error e")
      case False
      then have "io_catch m (\<lambda>error. if is_region_error error
                then handleFallbackResponse w ag message else io_throw error) tr = (Inl e, tr1)"
        using Pair Inl by (simp add: io_catch_def io_throw_def)
      then show ?thesis using tr1 by simp
    next
      case True
      obtain fb tr2 where fb: "handleFallbackResponse w ag message tr1 = (Inr fb, tr2)"
        using handleFallbackResponse_returns[of w ag message tr1] by blast
      obtain post where post: "tr2 = tr1 @ post" "list_all is_retrieval post"
        using fallback_trace[of w ag message tr1] fb by auto
      have "io_catch m (\<lambda>error. if is_region_error error
                then handleFallbackResponse w ag message else io_throw error) tr = (Inr fb, tr2)"
        using Pair Inl True fb by (simp add: io_catch_def)
      then show ?thesis using post tr1 fallback_balanced[OF fb] by simp
    qed
  qed
qed

lemma turn_shape_Nil: "turn_shape []"
  by (simp add: turn_shape_def)

lemma turn_shape_first: "turn_shape [ChatCompletion messages True]"
  by (simp add: turn_shape_def)

lemma body_run:
  "\<exists>ext. snd (io_bind (getContextForQuestion w (agent_rag ag) (agent_userId ag) message) (\<lambda>context.
          io_bind (user_findUnique w (agent_userId ag) False) (\<lambda>user.
          let messages = Msg ''system'' (systemPrompt user context)
                         # conversationHistory @ [Msg ''user'' message] in
          io_bind (firstCompletion w ag message messages) (\<lambda>first.
          case first of
            Inl fallback \<Rightarrow> io_return fallback
          | Inr response \<Rightarrow> replyTo w ag messages response))) tr) = tr @ ext
      \<and> turn_shape (turn_events ext)
      \<and> (\<forall>r. fst (io_bind (getContextForQuestion w (agent_rag ag) (agent_userId ag) message) (\<lambda>context.
          io_bind (user_findUnique w (agent_userId ag) False) (\<lambda>user.
          let messages = Msg ''system'' (systemPrompt user context)
                         # conversationHistory @ [Msg ''user'' message] in
          io_bind (firstCompletion w ag message messages) (\<lambda>first.
          case first of
            Inl fallback \<Rightarrow> io_return fallback
          | Inr response \<Rightarrow> replyTo w ag messages response))) tr) = Inr r \<longrightarrow> balanced r)"
  (is "\<exists>ext. snd (?body tr) = tr @ ext \<and> _ \<and> (\<forall>r. fst (?body tr) = Inr r \<longrightarrow> balanced r)")
proof -
  let ?uid = "agent_userId ag"
  obtain c tr1 where ctx: "getContextForQuestion w (agent_rag ag) ?uid message tr = (c, tr1)"
    by (cases "getContextForQuestion w (agent_rag ag) ?uid message tr")
  obtain e1 where e1: "tr1 = tr @ e1" "list_all is_retrieval e1"
    using getContextForQuestion_retrieval[of w "agent_rag ag" ?uid message] ctx
    unfolding only_events_def by (metis snd_conv)
  have q1: "turn_events e1 = []" using e1(2) by (rule retrieval_turn_events)
  show ?thesis
  proof (cases c)
    case (Inl e)
    then have res: "?body tr = (Inl e, tr1)" using ctx by (simp add: io_bind_def)
    show ?thesis
      by (rule exI[of _ e1]) (simp add: res e1 q1 turn_shape_Nil)
  next
    case (Inr ctxt)
    let ?tr2 = "tr1 @ [UserFindUnique ?uid False]"
    have usr: "user_findUnique w ?uid False tr1 = (findUnique w tr1 ?uid False, ?tr2)"
      by (simp add: user_findUnique_def perform_def)
    have q2: "turn_events (e1 @ [UserFindUnique ?uid False]) = []"
      using q1 by (simp add: turn_events_def)
    show ?thesis
    proof (cases "findUnique w tr1 ?uid False")
      case (Inl e)
      then have res: "?body tr = (Inl e, ?tr2)" using ctx Inr usr by (simp add: io_bind_def)
      show ?thesis
        by (rule exI[of _ "e1 @ [UserFindUnique ?uid False]"]) (simp add: res e1 q2 turn_shape_Nil)
    next
      case user: (Inr user)
      let ?messages = "Msg ''system'' (systemPrompt user ctxt)
                         # conversationHistory @ [Msg ''user'' message]"
      obtain f tr3 where fc: "firstCompletion w ag message ?messages ?tr2 = (f, tr3)"
        by (cases "firstCompletion w ag message ?messages ?tr2")
      obtain e3 where e3: "tr3 = ?tr2 @ ChatCompletion ?messages True # e3"
        "list_all is_retrieval e3"
        and fbal: "\<forall>fb. f = Inr (Inl fb) \<longrightarrow> balanced fb"
        using firstCompletion_run[of w ag message ?messages ?tr2] fc by auto
      have q3: "turn_events (e1 @ [UserFindUnique ?uid False] @ ChatCompletion ?messages True # e3)
                  = [ChatCompletion ?messages True]"
        using q1 retrieval_turn_events[OF e3(2)]
        by (simp add: turn_events_append) (simp add: turn_events_def)
      have tr3: "tr3 = tr @ (e1 @ [UserFindUnique ?uid False] @ ChatCompletion ?messages True # e3)"
        using e3(1) e1(1) by simp
      have step: "?body tr = (io_bind (firstCompletion w ag message ?messages) (\<lambda>first.
          case first of
            Inl fallback \<Rightarrow> io_return fallback
          | Inr response \<Rightarrow> replyTo w ag ?messages response)) ?tr2"
        using ctx Inr usr user by (simp add: io_bind_def Let_def)
      show ?thesis
      proof (cases f)
        case (Inl e)
        then have res: "?body tr = (Inl e, tr3)" using step fc by (simp add: io_bind_def)
        show ?thesis
          by (rule exI[of _ "e1 @ [UserFindUnique ?uid False] @ ChatCompletion ?messages True # e3"])
             (simp only: res tr3 q3 turn_shape_first fst_conv snd_conv, simp)
      next
        case first: (Inr first)
        show ?thesis
        proof (cases first)
          case (Inl fb)
          then have res: "?body tr = (Inr fb, tr3)"
            using step fc first by (simp add: io_bind_def io_return_def)
          have bfb: "balanced fb" using fbal first Inl by simp
          show ?thesis
            by (rule exI[of _ "e1 @ [UserFindUnique ?uid False] @ ChatCompletion ?messages True # e3"])
               (simp only: res tr3 q3 turn_shape_first fst_conv snd_conv, simp add: bfb)
        next
          case (Inr response)
          then have eq: "?body tr = replyTo w ag ?messages response tr3"
            using step fc first by (simp add: io_bind_def)
          obtain e4 where e4: "snd (replyTo w ag ?messages response tr3) = tr3 @ e4"
            and sh: "turn_events e4 = []
               \<or> (\<exists>m tcs rs. am_tool_calls m = Some tcs \<and> length rs = length tcs
                \<and> map tool_call_id rs = map tc_id tcs
                \<and> turn_events e4 = tool_round_events ?messages m tcs rs)"
            and bal: "\<forall>r. fst (replyTo w ag ?messages response tr3) = Inr r \<longrightarrow> balanced r"
            using replyTo_run[of w ag ?messages response tr3] by blast
          let ?ext = "(e1 @ [UserFindUnique ?uid False] @ ChatCompletion ?messages True # e3) @ e4"
          have t: "snd (?body tr) = tr @ ?ext" using eq e4 tr3 by simp
          have "turn_events ?ext = ChatCompletion ?messages True # turn_events e4"
            using q3 by (simp only: turn_events_append) simp
          then have ts: "turn_shape (turn_events ?ext)"
            using sh unfolding turn_shape_def by auto
          have bal2: "\<forall>r. fst (?body tr) = Inr r \<longrightarrow> balanced r"
            using bal by (simp only: eq)
          show ?thesis
            by (rule exI[of _ ?ext]) (intro conjI t ts bal2)
        qed
      qed
    qed
  qed
qed

lemma processMessage_run:
  "\<exists>ext. snd (processMessage w ag message conversationHistory tr) = tr @ ext
      \<and> turn_shape (turn_events ext)
      \<and> (\<forall>r. fst (processMessage w ag message conversationHistory tr) = Inr r \<longrightarrow> balanced r)"
proof -
  let ?m = "if \<not> agent_isOpenAIAvailable ag \<or> \<not> agent_openai ag
        then handleFallbackResponse w ag message
        else
          io_bind (getContextForQuestion w (agent_rag ag) (agent_userId ag) message) (\<lambda>context.
          io_bind (user_findUnique w (agent_userId ag) False) (\<lambda>user.
          let messages = Msg ''system'' (systemPrompt user context)
                         # conversationHistory @ [Msg ''user'' message] in
          io_bind (firstCompletion w ag message messages) (\<lambda>first.
          case first of
            Inl fallback \<Rightarrow> io_return fallback
          | Inr response \<Rightarrow> replyTo w ag messages response)))"
  have "\<exists>ext. snd (?m tr) = tr @ ext \<and> turn_shape (turn_events ext)
          \<and> (\<forall>r. fst (?m tr) = Inr r \<longrightarrow> balanced r)"
  proof (cases "\<not> agent_isOpenAIAvailable ag \<or> \<not> agent_openai ag")
    case True
    obtain ext where ext: "snd (handleFallbackResponse w ag message tr) = tr @ ext"
      "list_all is_retrieval ext"
      using fallback_trace[of w ag message tr] by blast
    have "\<forall>r. fst (handleFallbackResponse w ag message tr) = Inr r \<longrightarrow> balanced r"
      using fallback_balanced[of w ag message tr] by (metis prod.collapse)
    then have b: "\<forall>r. fst (?m tr) = Inr r \<longrightarrow> balanced r" using True by simp
    have s: "snd (?m tr) = tr @ ext" using True ext(1) by simp
    have sh: "turn_shape (turn_events ext)"
      using retrieval_turn_events[OF ext(2)] turn_shape_Nil by simp
    show ?thesis
      by (rule exI[of _ ext]) (intro conjI s sh b)
  next
    case False
    then show ?thesis using body_run[of w ag message conversationHistory tr] by simp
  qed
  then obtain ext where ext: "snd (?m tr) = tr @ ext" "turn_shape (turn_events ext)"
    "\<forall>r. fst (?m tr) = Inr r \<longrightarrow> balanced r"
    by blast
  obtain post where post:
    "snd (io_catch ?m (\<lambda>error. if is_region_error error
                then handleFallbackResponse w ag message else io_throw error) tr) = tr @ ext @ post"
    "list_all is_retrieval post"
    "\<forall>r. fst (io_catch ?m (\<lambda>error. if is_region_error error
                then handleFallbackResponse w ag message else io_throw error) tr) = Inr r
            \<longrightarrow> balanced r"
    using outer_catch_run[where m = ?m and tr = tr and ext = ext and w = w and ag = ag
        and message = message, OF ext(1) ext(3)] by blast
  have pm: "processMessage w ag message conversationHistory
      = io_catch ?m (\<lambda>error. if is_region_error error
                then handleFallbackResponse w ag message else io_throw error)"
    by (simp add: processMessage_def)
  have te: "turn_events (ext @ post) = turn_events ext"
    using retrieval_turn_events[OF post(2)] by (simp add: turn_events_append)
  have s: "snd (processMessage w ag message conversationHistory tr) = tr @ ext @ post"
    using post(1) by (simp only: pm)
  have sh: "turn_shape (turn_events (ext @ post))" using ext(2) by (simp only: te)
  have b: "\<forall>r. fst (processMessage w ag message conversationHistory tr) = Inr r \<longrightarrow> balanced r"
    using post(3) by (simp only: pm)
  show ?thesis
    by (rule exI[of _ "ext @ post"]) (intro conjI s sh b)
qed

subsection \<open>One outcome per invocation, one round per turn\<close>

lemma processMessage_tool_round:
  assumes "agent_isOpenAIAvailable ag" and "agent_openai ag"
    and "getContextForQuestion w (agent_rag ag) (agent_userId ag) message tr = (Inr ctx, tr1)"
    and "user_findUnique w (agent_userId ag) False tr1 = (Inr user, tr2)"
    and "messages = Msg ''system'' (systemPrompt user ctx)
                      # conversationHistory @ [Msg ''user'' message]"
    and "chat_completions_create w messages True tr2 = (Inr (m # others), tr3)"
    and "am_tool_calls m = Some tool_calls"
  shows "processMessage w ag message conversationHistory tr =
           (case toolRound w ag messages m tool_calls tr3 of
              (Inl e, t) \<Rightarrow>
                if is_region_error e then handleFallbackResponse w ag message t else (Inl e, t)
            | (Inr reply, t) \<Rightarrow> (Inr reply, t))"
proof -
  have first: "firstCompletion w ag message messages tr2 = (Inr (Inr (m # others)), tr3)"
    using assms(6) by (simp add: firstCompletion_def io_catch_def io_bind_def io_return_def)
  have reply: "replyTo w ag messages (m # others) tr3 = toolRound w ag messages m tool_calls tr3"
    using assms(7) by (simp add: replyTo_def io_bind_def io_lift_def first_choice_def)
  show ?thesis
    using assms(1-4) first reply unfolding assms(5)
    by (simp add: processMessage_def io_catch_def io_bind_def io_throw_def Let_def
        split: prod.splits sum.splits)
qed

lemma toolRound_cases:
  assumes "toolLoop w ag tool_calls [] tr3 = (toolResults, tr4)"
  shows "toolRound w ag messages m tool_calls tr3 =
           ((case completions_create w tr4 (messages @ [AssistantMsg m] @ map ToolMsg toolResults) False of
               Inl e \<Rightarrow> Inl e
             | Inr finalResponse \<Rightarrow>
                 (case meetingDataOf w tool_calls toolResults of
                    Inl e \<Rightarrow> Inl e
                  | Inr meetingData \<Rightarrow>
                      (case first_choice finalResponse of
                         Inl e \<Rightarrow> Inl e
                       | Inr finalMessage \<Rightarrow>
                           Inr \<lparr>resp_content = am_content finalMessage,
                                resp_toolCalls = Some tool_calls,
                                resp_toolResults = Some toolResults,
                                resp_meetingData = meetingData,
                                resp_usage_total_tokens = None\<rparr>))),
            tr4 @ [ChatCompletion (messages @ [AssistantMsg m] @ map ToolMsg toolResults) False])"
  using assms
  by (simp add: toolRound_def io_bind_def io_lift_def io_return_def chat_completions_create_def
      perform_def split: prod.splits sum.splits)

lemma toolLoop_position:
  assumes "toolLoop w ag (pre @ toolCall # rest) [] tr3 = (toolResults, tr4)"
  shows "\<exists>rs1 trA r trB rs2.
              toolLoop w ag pre [] tr3 = (rs1, trA)
            \<and> executeToolCall w ag (tool_call_value toolCall) trA = (r, trB)
            \<and> toolLoop w ag rest [] trB = (rs2, tr4)
            \<and> length rs1 = length pre \<and> length rs2 = length rest
            \<and> toolResults = rs1 @ outcome_of w toolCall r # rs2
            \<and> toolResults ! length pre = outcome_of w toolCall r"
proof -
  obtain rs1 trA where a: "toolLoop w ag pre [] tr3 = (rs1, trA)" by (cases "toolLoop w ag pre [] tr3")
  obtain r trB where b: "executeToolCall w ag (tool_call_value toolCall) trA = (r, trB)"
    by (cases "executeToolCall w ag (tool_call_value toolCall) trA")
  obtain rs2 trC where c: "toolLoop w ag rest [] trB = (rs2, trC)" by (cases "toolLoop w ag rest [] trB")
  have "toolLoop w ag (pre @ toolCall # rest) [] tr3 = (rs1 @ outcome_of w toolCall r # rs2, trC)"
    using a b c by (simp add: toolLoop_append toolLoop_Cons del: toolLoop.simps)
  then have eq: "toolResults = rs1 @ outcome_of w toolCall r # rs2" "tr4 = trC"
    using assms by simp_all
  have l1: "length rs1 = length pre" using toolLoop_length[of w ag pre tr3] a by simp
  have l2: "length rs2 = length rest" using toolLoop_length[of w ag rest trB] c by simp
  have nth: "toolResults ! length pre = outcome_of w toolCall r"
    using eq(1) l1 by (simp add: nth_append)
  show ?thesis
    using a b c eq l1 l2 nth by blast
qed

text \<open>
  C1. When the first reply of the model carries \<open>N\<close> tool invocations, \<open>processMessage\<close>
  runs its loop over exactly these invocations, from the trace the first completion left.
  The loop yields \<open>N\<close> outcomes, one per invocation, with the invocation's id, in the
  order of the invocations, and every invocation enters the dispatcher once, in that
  order. An invocation anywhere in the list is dispatched from the trace the invocations
  before it left, whatever they returned or threw; its outcome stands at its position,
  and carries the error's message when its handler threw; the invocations after it are
  run next. The \<open>N\<close> outcomes are sent, in order, to the second completion, and they are
  the outcomes of the reply whenever \<open>processMessage\<close> returns the reply of the tool round,
  as it does when the second completion answers and the meeting summary is built. When a
  step after the loop throws, \<open>processMessage\<close> rethrows the error or, for a region error,
  returns the templated reply, which carries no tool call and no outcome.
\<close>

theorem tool_loop_one_outcome_per_invocation:
  assumes "agent_isOpenAIAvailable ag" and "agent_openai ag"
    and "getContextForQuestion w (agent_rag ag) (agent_userId ag) message tr = (Inr ctx, tr1)"
    and "user_findUnique w (agent_userId ag) False tr1 = (Inr user, tr2)"
    and "messages = Msg ''system'' (systemPrompt user ctx)
                      # conversationHistory @ [Msg ''user'' message]"
    and "chat_completions_create w messages True tr2 = (Inr (m # others), tr3)"
    and "am_tool_calls m = Some tool_calls"
  shows "\<exists>toolResults tr4 post.
       toolLoop w ag tool_calls [] tr3 = (toolResults, tr4)
     \<and> length toolResults = length tool_calls
     \<and> map tool_call_id toolResults = map tc_id tool_calls
     \<and> (\<exists>ext. tr4 = tr3 @ ext
            \<and> turn_events ext = map (\<lambda>tc. ExecuteToolCall (tool_call_value tc)) tool_calls)
     \<and> (\<forall>pre toolCall rest. tool_calls = pre @ toolCall # rest \<longrightarrow>
           (\<exists>rs1 trA r trB rs2.
                toolLoop w ag pre [] tr3 = (rs1, trA)
              \<and> executeToolCall w ag (tool_call_value toolCall) trA = (r, trB)
              \<and> toolLoop w ag rest [] trB = (rs2, tr4)
              \<and> length rs1 = length pre \<and> length rs2 = length rest
              \<and> toolResults = rs1 @ outcome_of w toolCall r # rs2
              \<and> (\<forall>e. r = Inl e \<longrightarrow>
                    toolResults ! length pre =
                      \<lparr>tool_call_id = tc_id toolCall,
                       tr_content = JSON_stringify w (JObj [(''error'', JStr (error_text e))])\<rparr>)
              \<and> (\<forall>result. r = Inr result \<longrightarrow>
                    toolResults ! length pre =
                      \<lparr>tool_call_id = tc_id toolCall,
                       tr_content = JSON_stringify w result\<rparr>)))
     \<and> snd (processMessage w ag message conversationHistory tr) =
         tr4 @ ChatCompletion (messages @ [AssistantMsg m] @ map ToolMsg toolResults) False # post
     \<and> list_all is_retrieval post
     \<and> (\<forall>finalMessage choices meetingData.
           completions_create w tr4 (messages @ [AssistantMsg m] @ map ToolMsg toolResults) False
             = Inr (finalMessage # choices)
           \<and> meetingDataOf w tool_calls toolResults = Inr meetingData
           \<longrightarrow> post = []
               \<and> fst (processMessage w ag message conversationHistory tr) =
                   Inr \<lparr>resp_content = am_content finalMessage,
                        resp_toolCalls = Some tool_calls,
                        resp_toolResults = Some toolResults,
                        resp_meetingData = meetingData,
                        resp_usage_total_tokens = None\<rparr>)
     \<and> (\<forall>reply. fst (processMessage w ag message conversationHistory tr) = Inr reply \<longrightarrow>
           (resp_toolCalls reply = Some tool_calls \<and> resp_toolResults reply = Some toolResults)
           \<or> (resp_toolCalls reply = Some [] \<and> resp_toolResults reply = None
               \<and> (\<exists>e. is_region_error e
                     \<and> fst (toolRound w ag messages m tool_calls tr3) = Inl e)))
     \<and> (\<forall>e. fst (toolRound w ag messages m tool_calls tr3) = Inl e \<and> \<not> is_region_error e
           \<longrightarrow> fst (processMessage w ag message conversationHistory tr) = Inl e)"
proof -
  obtain toolResults tr4 where loop: "toolLoop w ag tool_calls [] tr3 = (toolResults, tr4)"
    by (cases "toolLoop w ag tool_calls [] tr3")
  let ?second = "ChatCompletion (messages @ [AssistantMsg m] @ map ToolMsg toolResults) False"
  let ?pm = "processMessage w ag message conversationHistory tr"
  let ?round = "toolRound w ag messages m tool_calls tr3"
  have len: "length toolResults = length tool_calls"
    using toolLoop_length[of w ag tool_calls tr3] loop by simp
  have ids: "map tool_call_id toolResults = map tc_id tool_calls"
    using toolLoop_ids[of w ag tool_calls tr3] loop by simp
  have entries: "\<exists>ext. tr4 = tr3 @ ext
            \<and> turn_events ext = map (\<lambda>tc. ExecuteToolCall (tool_call_value tc)) tool_calls"
    using toolLoop_trace[of w ag tool_calls tr3] loop by simp
  have position: "\<forall>pre toolCall rest. tool_calls = pre @ toolCall # rest \<longrightarrow>
           (\<exists>rs1 trA r trB rs2.
                toolLoop w ag pre [] tr3 = (rs1, trA)
              \<and> executeToolCall w ag (tool_call_value toolCall) trA = (r, trB)
              \<and> toolLoop w ag rest [] trB = (rs2, tr4)
              \<and> length rs1 = length pre \<and> length rs2 = length rest
              \<and> toolResults = rs1 @ outcome_of w toolCall r # rs2
              \<and> (\<forall>e. r = Inl e \<longrightarrow>
                    toolResults ! length pre =
                      \<lparr>tool_call_id = tc_id toolCall,
                       tr_content = JSON_stringify w (JObj [(''error'', JStr (error_text e))])\<rparr>)
              \<and> (\<forall>result. r = Inr result \<longrightarrow>
                    toolResults ! length pre =
                      \<lparr>tool_call_id = tc_id toolCall,
                       tr_content = JSON_stringify w result\<rparr>))"
  proof (intro allI impI)
    fix pre toolCall rest
    assume "tool_calls = pre @ toolCall # rest"
    then have "toolLoop w ag (pre @ toolCall # rest) [] tr3 = (toolResults, tr4)"
      using loop by simp
    from toolLoop_position[OF this]
    obtain rs1 trA r trB rs2 where p:
      "toolLoop w ag pre [] tr3 = (rs1, trA)"
      "executeToolCall w ag (tool_call_value toolCall) trA = (r, trB)"
      "toolLoop w ag rest [] trB = (rs2, tr4)"
      "length rs1 = length pre" "length rs2 = length rest"
      "toolResults = rs1 @ outcome_of w toolCall r # rs2"
      "toolResults ! length pre = outcome_of w toolCall r"
      by blast
    have e: "\<forall>e. r = Inl e \<longrightarrow>
                    toolResults ! length pre =
                      \<lparr>tool_call_id = tc_id toolCall,
                       tr_content = JSON_stringify w (JObj [(''error'', JStr (error_text e))])\<rparr>"
      using p(7) by (simp add: outcome_of_def)
    have v: "\<forall>result. r = Inr result \<longrightarrow>
                    toolResults ! length pre =
                      \<lparr>tool_call_id = tc_id toolCall,
                       tr_content = JSON_stringify w result\<rparr>"
      using p(7) by (simp add: outcome_of_def)
    show "\<exists>rs1 trA r trB rs2.
                toolLoop w ag pre [] tr3 = (rs1, trA)
              \<and> executeToolCall w ag (tool_call_value toolCall) trA = (r, trB)
              \<and> toolLoop w ag rest [] trB = (rs2, tr4)
              \<and> length rs1 = length pre \<and> length rs2 = length rest
              \<and> toolResults = rs1 @ outcome_of w toolCall r # rs2
              \<and> (\<forall>e. r = Inl e \<longrightarrow>
                    toolResults ! length pre =
                      \<lparr>tool_call_id = tc_id toolCall,
                       tr_content = JSON_stringify w (JObj [(''error'', JStr (error_text e))])\<rparr>)
              \<and> (\<forall>result. r = Inr result \<longrightarrow>
                    toolResults ! length pre =
                      \<lparr>tool_call_id = tc_id toolCall,
                       tr_content = JSON_stringify w result\<rparr>)"
      by (intro exI[of _ rs1] exI[of _ trA] exI[of _ r] exI[of _ trB] exI[of _ rs2] conjI)
        (fact p(1) p(2) p(3) p(4) p(5) p(6) e v)+
  qed
  note pm = processMessage_tool_round[OF assms]
  note round = toolRound_cases[OF loop, of messages m]
  have round_snd: "snd ?round = tr4 @ [?second]" by (simp add: round)
  obtain fb where fb: "snd (handleFallbackResponse w ag message (tr4 @ [?second]))
                         = (tr4 @ [?second]) @ fb" "list_all is_retrieval fb"
    using fallback_trace[of w ag message "tr4 @ [?second]"] by blast
  obtain fr trf where fr: "handleFallbackResponse w ag message (tr4 @ [?second]) = (Inr fr, trf)"
    "resp_toolCalls fr = Some []" "resp_toolResults fr = None"
    using handleFallbackResponse_returns[of w ag message "tr4 @ [?second]"] by blast
  define post where "post = (case fst ?round of
                               Inl e \<Rightarrow> if is_region_error e then fb else []
                             | Inr reply \<Rightarrow> [])"
  have trace: "snd ?pm = tr4 @ ?second # post"
    using fb(1) round_snd
    by (cases ?round) (auto simp add: pm post_def split: sum.splits)
  have retrieval: "list_all is_retrieval post"
    using fb(2) by (simp add: post_def split: sum.splits)
  have success: "\<forall>finalMessage choices meetingData.
           completions_create w tr4 (messages @ [AssistantMsg m] @ map ToolMsg toolResults) False
             = Inr (finalMessage # choices)
           \<and> meetingDataOf w tool_calls toolResults = Inr meetingData
           \<longrightarrow> post = []
               \<and> fst ?pm =
                   Inr \<lparr>resp_content = am_content finalMessage,
                        resp_toolCalls = Some tool_calls,
                        resp_toolResults = Some toolResults,
                        resp_meetingData = meetingData,
                        resp_usage_total_tokens = None\<rparr>"
    by (simp add: pm round post_def first_choice_def)
  have replies: "\<forall>reply. fst ?pm = Inr reply \<longrightarrow>
           (resp_toolCalls reply = Some tool_calls \<and> resp_toolResults reply = Some toolResults)
           \<or> (resp_toolCalls reply = Some [] \<and> resp_toolResults reply = None
               \<and> (\<exists>e. is_region_error e \<and> fst ?round = Inl e))"
  proof (intro allI impI)
    fix reply assume r: "fst ?pm = Inr reply"
    show "(resp_toolCalls reply = Some tool_calls \<and> resp_toolResults reply = Some toolResults)
           \<or> (resp_toolCalls reply = Some [] \<and> resp_toolResults reply = None
               \<and> (\<exists>e. is_region_error e \<and> fst ?round = Inl e))"
    proof (cases "fst ?round")
      case (Inr rr)
      then have rd: "?round = (Inr rr, tr4 @ [?second])" using round_snd by (cases ?round) simp
      then have "reply = rr" using r by (simp add: pm)
      moreover have "resp_toolCalls rr = Some tool_calls \<and> resp_toolResults rr = Some toolResults"
        using toolRound_result[OF rd] loop by simp
      ultimately show ?thesis by simp
    next
      case (Inl e)
      then have rd: "?round = (Inl e, tr4 @ [?second])" using round_snd by (cases ?round) simp
      show ?thesis
      proof (cases "is_region_error e")
        case True
        then have "reply = fr" using r rd fr(1) by (simp add: pm)
        then show ?thesis using fr(2,3) True Inl by blast
      next
        case False
        then show ?thesis using r rd by (simp add: pm)
      qed
    qed
  qed
  have thrown: "\<forall>e. fst ?round = Inl e \<and> \<not> is_region_error e \<longrightarrow> fst ?pm = Inl e"
  proof (intro allI impI)
    fix e assume a: "fst ?round = Inl e \<and> \<not> is_region_error e"
    then have "?round = (Inl e, tr4 @ [?second])" using round_snd by (cases ?round) simp
    then show "fst ?pm = Inl e" using a by (simp add: pm)
  qed
  show ?thesis
    by (rule exI[of _ toolResults], rule exI[of _ tr4], rule exI[of _ post], intro conjI)
      (fact loop len ids entries position trace retrieval success replies thrown)+
qed

theorem tool_loop_one_outcome_per_invocation_witness:
  "agent_isOpenAIAvailable online_agent
   \<and> agent_openai online_agent
   \<and> getContextForQuestion tool_world (agent_rag online_agent) (agent_userId online_agent)
       ''When is my next meeting?'' [] =
     (Inr [],
      [EmbedQuery ''When is my next meeting?'', EmailVectorQuery ''u1'' [1, 0] 10,
          ContactVectorQuery ''u1'' [1, 0] 10])
   \<and> user_findUnique tool_world (agent_userId online_agent) False
       [EmbedQuery ''When is my next meeting?'', EmailVectorQuery ''u1'' [1, 0] 10,
          ContactVectorQuery ''u1'' [1, 0] 10] =
     (Inr (Some sample_user),
      [EmbedQuery ''When is my next meeting?'', EmailVectorQuery ''u1'' [1, 0] 10,
          ContactVectorQuery ''u1'' [1, 0] 10, UserFindUnique ''u1'' False])
   \<and> tool_messages = Msg ''system'' (systemPrompt (Some sample_user) [])
                      # [] @ [Msg ''user'' ''When is my next meeting?'']
   \<and> chat_completions_create tool_world tool_messages True
       [EmbedQuery ''When is my next meeting?'', EmailVectorQuery ''u1'' [1, 0] 10,
          ContactVectorQuery ''u1'' [1, 0] 10, UserFindUnique ''u1'' False] =
     (Inr (tool_first_reply # []), tool_first_trace)
   \<and> am_tool_calls tool_first_reply = Some [tc_search, tc_create]
   \<and> (\<exists>toolResults tr4 post.
       toolLoop tool_world online_agent [tc_search, tc_create] [] tool_first_trace = (toolResults, tr4)
     \<and> length toolResults = length [tc_search, tc_create]
     \<and> map tool_call_id toolResults = map tc_id [tc_search, tc_create]
     \<and> (\<exists>ext. tr4 = tool_first_trace @ ext
            \<and> turn_events ext = map (\<lambda>tc. ExecuteToolCall (tool_call_value tc)) [tc_search, tc_create])
     \<and> (\<forall>pre toolCall rest. [tc_search, tc_create] = pre @ toolCall # rest \<longrightarrow>
           (\<exists>rs1 trA r trB rs2.
                toolLoop tool_world online_agent pre [] tool_first_trace = (rs1, trA)
              \<and> executeToolCall tool_world online_agent (tool_call_value toolCall) trA = (r, trB)
              \<and> toolLoop tool_world online_agent rest [] trB = (rs2, tr4)
              \<and> length rs1 = length pre \<and> length rs2 = length rest
              \<and> toolResults = rs1 @ outcome_of tool_world toolCall r # rs2
              \<and> (\<forall>e. r = Inl e \<longrightarrow>
                    toolResults ! length pre =
                      \<lparr>tool_call_id = tc_id toolCall,
                       tr_content = JSON_stringify tool_world (JObj [(''error'', JStr (error_text e))])\<rparr>)
              \<and> (\<forall>result. r = Inr result \<longrightarrow>
                    toolResults ! length pre =
                      \<lparr>tool_call_id = tc_id toolCall,
                       tr_content = JSON_stringify tool_world result\<rparr>)))
     \<and> snd (processMessage tool_world online_agent ''When is my next meeting?'' [] []) =
         tr4 @ ChatCompletion (tool_messages @ [AssistantMsg tool_first_reply] @ map ToolMsg toolResults) False # post
     \<and> list_all is_retrieval post
     \<and> (\<forall>finalMessage choices meetingData.
           completions_create tool_world tr4 (tool_messages @ [AssistantMsg tool_first_reply] @ map ToolMsg toolResults) False
             = Inr (finalMessage # choices)
           \<and> meetingDataOf tool_world [tc_search, tc_create] toolResults = Inr meetingData
           \<longrightarrow> post = []
               \<and> fst (processMessage tool_world online_agent ''When is my next meeting?'' [] []) =
                   Inr \<lparr>resp_content = am_content finalMessage,
                        resp_toolCalls = Some [tc_search, tc_create],
                        resp_toolResults = Some toolResults,
                        resp_meetingData = meetingData,
                        resp_usage_total_tokens = None\<rparr>)
     \<and> (\<forall>reply. fst (processMessage tool_world online_agent ''When is my next meeting?'' [] []) = Inr reply \<longrightarrow>
           (resp_toolCalls reply = Some [tc_search, tc_create] \<and> resp_toolResults reply = Some toolResults)
           \<or> (resp_toolCalls reply = Some [] \<and> resp_toolResults reply = None
               \<and> (\<exists>e. is_region_error e
                     \<and> fst (toolRound tool_world online_agent tool_messages tool_first_reply [tc_search, tc_create] tool_first_trace) = Inl e)))
     \<and> (\<forall>e. fst (toolRound tool_world online_agent tool_messages tool_first_reply [tc_search, tc_create] tool_first_trace) = Inl e \<and> \<not> is_region_error e
           \<longrightarrow> fst (processMessage tool_world online_agent ''When is my next meeting?'' [] []) = Inl e))
   \<and> fst (processMessage tool_world online_agent ''When is my next meeting?'' [] []) =
        Inr \<lparr>resp_content = Some ''Your meeting is booked.'',
             resp_toolCalls = Some [tc_search, tc_create],
             resp_toolResults = Some [\<lparr>tool_call_id = ''call_1'', tr_content = ''[]''\<rparr>,
       \<lparr>tool_call_id = ''call_2'', tr_content = ''{error:Invalid start time}''\<rparr>],
             resp_meetingData = JArr [],
             resp_usage_total_tokens = None\<rparr>
   \<and> toolLoop tool_world online_agent [tc_search, tc_create] [] tool_first_trace =
     ([\<lparr>tool_call_id = ''call_1'', tr_content = ''[]''\<rparr>,
       \<lparr>tool_call_id = ''call_2'', tr_content = ''{error:Invalid start time}''\<rparr>],
      tool_first_trace @
      [ExecuteToolCall (tool_call_value tc_search), UserFindUnique ''u1'' True,
       CalendarSearchEvents ''stored'' JUndefined JUndefined JUndefined,
       ExecuteToolCall (tool_call_value tc_create), UserFindUnique ''u1'' True,
       CalendarCreateEvent ''stored''
         (JObj [(''summary'', JUndefined), (''description'', JUndefined),
                (''start'', JObj [(''dateTime'', JUndefined), (''timeZone'', JStr ''America/New_York'')]),
                (''end'', JObj [(''dateTime'', JUndefined), (''timeZone'', JStr ''America/New_York'')]),
                (''attendees'', JUndefined)])])"
proof -
  have h1: "agent_isOpenAIAvailable online_agent"
    by (simp add: online_agent_def)
  have h2: "agent_openai online_agent"
    by (simp add: online_agent_def)
  have h3: "getContextForQuestion tool_world (agent_rag online_agent) (agent_userId online_agent)
       ''When is my next meeting?'' [] =
     (Inr [],
      [EmbedQuery ''When is my next meeting?'', EmailVectorQuery ''u1'' [1, 0] 10,
          ContactVectorQuery ''u1'' [1, 0] 10])"
    by code_simp
  have h4: "user_findUnique tool_world (agent_userId online_agent) False
       [EmbedQuery ''When is my next meeting?'', EmailVectorQuery ''u1'' [1, 0] 10,
          ContactVectorQuery ''u1'' [1, 0] 10] =
     (Inr (Some sample_user),
      [EmbedQuery ''When is my next meeting?'', EmailVectorQuery ''u1'' [1, 0] 10,
          ContactVectorQuery ''u1'' [1, 0] 10, UserFindUnique ''u1'' False])"
    by code_simp
  have h5: "tool_messages = Msg ''system'' (systemPrompt (Some sample_user) [])
                      # [] @ [Msg ''user'' ''When is my next meeting?'']"
    by (simp add: tool_messages_def)
  have h6: "chat_completions_create tool_world tool_messages True
       [EmbedQuery ''When is my next meeting?'', EmailVectorQuery ''u1'' [1, 0] 10,
          ContactVectorQuery ''u1'' [1, 0] 10, UserFindUnique ''u1'' False] =
     (Inr (tool_first_reply # []), tool_first_trace)"
    by code_simp
  have h7: "am_tool_calls tool_first_reply = Some [tc_search, tc_create]"
    by (simp add: tool_first_reply_def)
  have reply: "fst (processMessage tool_world online_agent ''When is my next meeting?'' [] []) =
        Inr \<lparr>resp_content = Some ''Your meeting is booked.'',
             resp_toolCalls = Some [tc_search, tc_create],
             resp_toolResults = Some [\<lparr>tool_call_id = ''call_1'', tr_content = ''[]''\<rparr>,
       \<lparr>tool_call_id = ''call_2'', tr_content = ''{error:Invalid start time}''\<rparr>],
             resp_meetingData = JArr [],
             resp_usage_total_tokens = None\<rparr>"
    by code_simp
  have run: "toolLoop tool_world online_agent [tc_search, tc_create] [] tool_first_trace =
     ([\<lparr>tool_call_id = ''call_1'', tr_content = ''[]''\<rparr>,
       \<lparr>tool_call_id = ''call_2'', tr_content = ''{error:Invalid start time}''\<rparr>],
      tool_first_trace @
      [ExecuteToolCall (tool_call_value tc_search), UserFindUnique ''u1'' True,
       CalendarSearchEvents ''stored'' JUndefined JUndefined JUndefined,
       ExecuteToolCall (tool_call_value tc_create), UserFindUnique ''u1'' True,
       CalendarCreateEvent ''stored''
         (JObj [(''summary'', JUndefined), (''description'', JUndefined),
                (''start'', JObj [(''dateTime'', JUndefined), (''timeZone'', JStr ''America/New_York'')]),
                (''end'', JObj [(''dateTime'', JUndefined), (''timeZone'', JStr ''America/New_York'')]),
                (''attendees'', JUndefined)])])"
    by code_simp
  note inst = tool_loop_one_outcome_per_invocation[OF h1 h2 h3 h4 h5 h6 h7]
  show ?thesis
    by (intro conjI) (fact h1 h2 h3 h4 h5 h6 h7 inst reply run)+
qed

text \<open>
  The run where the second completion is refused for the region: both invocations were
  dispatched, and the reply is the templated one.
\<close>

lemma second_completion_refused_run:
  "fst (processMessage refusing_world online_agent ''When is my next meeting?'' [] []) =
     Inr \<lparr>resp_content = Some (fallback_text ''When is my next meeting?'' [] (Some sample_user)),
          resp_toolCalls = Some [], resp_toolResults = None,
          resp_meetingData = JUndefined, resp_usage_total_tokens = Some 0\<rparr>
   \<and> filter is_tool_entry
         (snd (processMessage refusing_world online_agent ''When is my next meeting?'' [] []))
       = [ExecuteToolCall (tool_call_value tc_search), ExecuteToolCall (tool_call_value tc_create)]"
  by code_simp

text \<open>
  C8. In every chat turn, the completions and dispatcher entries are: none; or the first
  completion alone; or the first completion, one dispatcher entry per tool call of its
  reply, and exactly one more completion, issued without tool declarations on the
  transcript extended by that reply and its outcomes. Nothing is dispatched after the
  second completion, whatever its reply contains.
\<close>

theorem single_tool_round:
  "\<exists>ext. snd (processMessage w ag message conversationHistory tr) = tr @ ext
      \<and> (turn_events ext = []
          \<or> (\<exists>messages. turn_events ext = [ChatCompletion messages True])
          \<or> (\<exists>messages m tcs rs.
                am_tool_calls m = Some tcs \<and> length rs = length tcs
                \<and> map tool_call_id rs = map tc_id tcs
                \<and> turn_events ext =
                    ChatCompletion messages True
                    # map (\<lambda>tc. ExecuteToolCall (tool_call_value tc)) tcs
                    @ [ChatCompletion (messages @ [AssistantMsg m] @ map ToolMsg rs) False]))"
  using processMessage_run[of w ag message conversationHistory tr]
  unfolding turn_shape_def tool_round_events_def by blast

theorem single_tool_round_witness:
  "(\<exists>ext. snd (processMessage tool_world online_agent ''When is my next meeting?'' [] []) = [] @ ext
      \<and> (turn_events ext = []
          \<or> (\<exists>messages. turn_events ext = [ChatCompletion messages True])
          \<or> (\<exists>messages m tcs rs.
                am_tool_calls m = Some tcs \<and> length rs = length tcs
                \<and> map tool_call_id rs = map tc_id tcs
                \<and> turn_events ext =
                    ChatCompletion messages True
                    # map (\<lambda>tc. ExecuteToolCall (tool_call_value tc)) tcs
                    @ [ChatCompletion (messages @ [AssistantMsg m] @ map ToolMsg rs) False])))
   \<and> filter is_tool_entry (snd (processMessage tool_world online_agent ''When is my next meeting?'' [] []))
        = [ExecuteToolCall (tool_call_value tc_search), ExecuteToolCall (tool_call_value tc_create)]
   \<and> length (filter is_completion
        (snd (processMessage tool_world online_agent ''When is my next meeting?'' [] []))) = 2
   \<and> completions_create tool_world [] [] False =
        Inr [\<lparr>am_content = Some ''Your meeting is booked.'', am_tool_calls = Some [tc_send]\<rparr>]"
proof -
  have entries: "filter is_tool_entry
        (snd (processMessage tool_world online_agent ''When is my next meeting?'' [] []))
        = [ExecuteToolCall (tool_call_value tc_search), ExecuteToolCall (tool_call_value tc_create)]"
    by code_simp
  have completions: "length (filter is_completion
        (snd (processMessage tool_world online_agent ''When is my next meeting?'' [] []))) = 2"
    by code_simp
  have second: "completions_create tool_world [] [] False =
        Inr [\<lparr>am_content = Some ''Your meeting is booked.'', am_tool_calls = Some [tc_send]\<rparr>]"
    by (simp add: tool_world_def)
  from single_tool_round[of tool_world online_agent "''When is my next meeting?''" "[]" "[]"]
    entries completions second
  show ?thesis by blast
qed

subsection \<open>Unknown tool names\<close>

text \<open>
  C9, as the claim states it, fails: the arguments are parsed before the name is looked
  at, so an invocation of an unknown tool whose arguments text is not JSON gets the parse
  error as its outcome, not the unknown-tool error.
\<close>

theorem unknown_tool_with_malformed_arguments:
  "tc_name tc_unknown \<notin> set tool_names
   \<and> JSON_parse sample_world (tc_arguments tc_unknown) = Inl (Error ''Unexpected end of JSON input'' None)
   \<and> toolLoop sample_world online_agent [tc_unknown] [] [] =
       ([\<lparr>tool_call_id = ''call_9'',
          tr_content = JSON_stringify sample_world
                         (JObj [(''error'', JStr ''Unexpected end of JSON input'')])\<rparr>],
        [ExecuteToolCall (tool_call_value tc_unknown)])
   \<and> JSON_stringify sample_world (JObj [(''error'', JStr ''Unexpected end of JSON input'')])
       \<noteq> JSON_stringify sample_world (JObj [(''error'', JStr ''Unknown tool: transfer_funds'')])"
  by code_simp

lemma unknown_tool_switch:
  assumes "n \<notin> set tool_names"
  shows "tool_switch w ag (JStr n) parsedArgs tr = (Inl (Error (''Unknown tool: '' @ n) None), tr)"
  using assms by (simp add: tool_switch_def tool_names_def io_throw_def js_String_def)

text \<open>
  C9, amended. An invocation whose name is none of the eleven tool names never reaches a
  collaborator and never stops the loop: the dispatcher throws, and the loop records one
  error outcome for it, which is \<open>Unknown tool: name\<close> when the arguments text parses
  as JSON and the parse error when it does not.
\<close>

theorem unknown_tool_yields_error_outcome:
  assumes "tc_name toolCall \<notin> set tool_names"
  shows "executeToolCall w ag (tool_call_value toolCall) tr =
           (Inl (case JSON_parse w (tc_arguments toolCall) of
                   Inl parse_error \<Rightarrow> parse_error
                 | Inr parsedArgs \<Rightarrow> Error (''Unknown tool: '' @ tc_name toolCall) None),
            tr @ [ExecuteToolCall (tool_call_value toolCall)])
       \<and> toolLoop w ag [toolCall] [] tr =
           ([\<lparr>tool_call_id = tc_id toolCall,
              tr_content = JSON_stringify w (JObj [(''error'', JStr
                (case JSON_parse w (tc_arguments toolCall) of
                   Inl parse_error \<Rightarrow> error_text parse_error
                 | Inr parsedArgs \<Rightarrow> ''Unknown tool: '' @ tc_name toolCall))])\<rparr>],
            tr @ [ExecuteToolCall (tool_call_value toolCall)])"
proof -
  have ex: "executeToolCall w ag (tool_call_value toolCall) tr =
           (Inl (case JSON_parse w (tc_arguments toolCall) of
                   Inl parse_error \<Rightarrow> parse_error
                 | Inr parsedArgs \<Rightarrow> Error (''Unknown tool: '' @ tc_name toolCall) None),
            tr @ [ExecuteToolCall (tool_call_value toolCall)])"
    using assms
    by (simp add: executeToolCall_def tool_call_value_def io_bind_def io_lift_def perform_def
        js_String_def unknown_tool_switch split: sum.splits)
  then show ?thesis
    by (simp add: outcome_of_def split: sum.splits)
qed

theorem unknown_tool_yields_error_outcome_witness:
  "tc_name tc_unknown_parsed \<notin> set tool_names
   \<and> JSON_parse sample_world (tc_arguments tc_unknown_parsed) = Inr (JObj [])
   \<and> executeToolCall sample_world online_agent (tool_call_value tc_unknown_parsed) [] =
           (Inl (case JSON_parse sample_world (tc_arguments tc_unknown_parsed) of
                   Inl parse_error \<Rightarrow> parse_error
                 | Inr parsedArgs \<Rightarrow> Error (''Unknown tool: '' @ tc_name tc_unknown_parsed) None),
            [] @ [ExecuteToolCall (tool_call_value tc_unknown_parsed)])
   \<and> toolLoop sample_world online_agent [tc_unknown_parsed] [] [] =
           ([\<lparr>tool_call_id = tc_id tc_unknown_parsed,
              tr_content = JSON_stringify sample_world (JObj [(''error'', JStr
                (case JSON_parse sample_world (tc_arguments tc_unknown_parsed) of
                   Inl parse_error \<Rightarrow> error_text parse_error
                 | Inr parsedArgs \<Rightarrow> ''Unknown tool: '' @ tc_name tc_unknown_parsed))])\<rparr>],
            [] @ [ExecuteToolCall (tool_call_value tc_unknown_parsed)])
   \<and> fst (toolLoop sample_world online_agent [tc_unknown_parsed] [] []) =
           [\<lparr>tool_call_id = ''call_8'', tr_content = ''{error:Unknown tool: transfer_funds}''\<rparr>]"
proof -
  have unknown: "tc_name tc_unknown_parsed \<notin> set tool_names"
    by (simp add: tc_unknown_parsed_def tool_names_def)
  have parsed: "JSON_parse sample_world (tc_arguments tc_unknown_parsed) = Inr (JObj [])"
    by (simp add: tc_unknown_parsed_def sample_world_def)
  have outcome: "fst (toolLoop sample_world online_agent [tc_unknown_parsed] [] []) =
           [\<lparr>tool_call_id = ''call_8'', tr_content = ''{error:Unknown tool: transfer_funds}''\<rparr>]"
    by code_simp
  from unknown_tool_yields_error_outcome[OF unknown, of sample_world online_agent "[]"]
    unknown parsed outcome
  show ?thesis by blast
qed

subsection \<open>The credential of the email tools\<close>

text \<open>
  C6, as the claim states it, fails: with a session token supplied, rejected, and no
  stored token, the stored token is looked up twice in one tool call, once inside
  \<open>createForUserWithSession\<close> and once more by the handler's own \<open>catch\<close>.
\<close>

theorem stored_token_attempted_twice:
  "agent_sessionToken online_agent = Some ''session''
   \<and> executeToolCall disconnected_world online_agent (tool_call_value tc_send) [] =
       (Inl (Error ''Gmail not connected for this user. Please sign in with Google to connect your Gmail account.'' None),
        [ExecuteToolCall (tool_call_value tc_send), GmailGetProfile ''session'',
         UserFindUnique ''u1'' True, UserFindUnique ''u1'' True])
   \<and> length (filter is_stored_token_lookup
        (snd (executeToolCall disconnected_world online_agent (tool_call_value tc_send) []))) = 2"
  by code_simp

lemma Gmail_createForUser_trace:
  "snd (Gmail_createForUser w userId tr) = tr @ [UserFindUnique userId True]"
  by (simp add: Gmail_createForUser_def io_bind_def user_findUnique_def perform_def io_throw_def
      io_return_def split: sum.splits option.splits)

lemma Gmail_createForUser_pair:
  "Gmail_createForUser w userId tr
     = (fst (Gmail_createForUser w userId tr), tr @ [UserFindUnique userId True])"
  using Gmail_createForUser_trace[of w userId tr] by (metis prod.collapse)

lemma Gmail_createForUserWithSession_eq:
  "Gmail_createForUserWithSession w userId t tr =
     (case getProfile w tr t of
        None \<Rightarrow> (Inr t, tr @ [GmailGetProfile t])
      | Some e \<Rightarrow> Gmail_createForUser w userId (tr @ [GmailGetProfile t]))"
  by (simp add: Gmail_createForUserWithSession_def io_catch_def io_bind_def perform_def io_return_def
      split: option.splits)

lemma gmailForTool_eq:
  assumes "agent_sessionToken ag = Some sessionToken" and "sessionToken \<noteq> []"
  shows "gmailForTool w ag tr =
     (case getProfile w tr sessionToken of
        None \<Rightarrow> (Inr sessionToken, tr @ [GmailGetProfile sessionToken])
      | Some e \<Rightarrow>
          (case fst (Gmail_createForUser w (agent_userId ag) (tr @ [GmailGetProfile sessionToken])) of
             Inr token \<Rightarrow>
               (Inr token, tr @ [GmailGetProfile sessionToken, UserFindUnique (agent_userId ag) True])
           | Inl e1 \<Rightarrow>
               (fst (Gmail_createForUser w (agent_userId ag)
                       (tr @ [GmailGetProfile sessionToken, UserFindUnique (agent_userId ag) True])),
                tr @ [GmailGetProfile sessionToken, UserFindUnique (agent_userId ag) True,
                      UserFindUnique (agent_userId ag) True])))"
proof (cases "getProfile w tr sessionToken")
  case None
  then show ?thesis using assms
    by (simp add: gmailForTool_def io_catch_def Gmail_createForUserWithSession_eq)
next
  case (Some e)
  let ?tr1 = "tr @ [GmailGetProfile sessionToken]"
  have s: "Gmail_createForUserWithSession w (agent_userId ag) sessionToken tr
      = (fst (Gmail_createForUser w (agent_userId ag) ?tr1), ?tr1 @ [UserFindUnique (agent_userId ag) True])"
    using Some Gmail_createForUser_pair[of w "agent_userId ag" ?tr1]
    by (simp add: Gmail_createForUserWithSession_eq)
  show ?thesis
  proof (cases "fst (Gmail_createForUser w (agent_userId ag) ?tr1)")
    case (Inr token)
    then show ?thesis using assms Some s
      by (simp add: gmailForTool_def io_catch_def)
  next
    case (Inl e1)
    then show ?thesis using assms Some s
        Gmail_createForUser_pair[of w "agent_userId ag" "?tr1 @ [UserFindUnique (agent_userId ag) True]"]
      by (simp add: gmailForTool_def io_catch_def)
  qed
qed

lemma email_tool_after_gmail:
  assumes "name = ''search_emails'' \<or> name = ''send_email''"
  shows "\<exists>rest. snd (tool_switch w ag (JStr name) parsedArgs tr) = snd (gmailForTool w ag tr) @ rest
           \<and> list_all (\<lambda>e. \<not> is_credential_attempt e) rest
           \<and> (\<forall>e. fst (gmailForTool w ag tr) = Inl e
                 \<longrightarrow> tool_switch w ag (JStr name) parsedArgs tr = (Inl e, snd (gmailForTool w ag tr)))"
proof -
  let ?P = "\<lambda>e. \<not> is_credential_attempt e"
  obtain k where k: "tool_switch w ag (JStr name) parsedArgs = io_bind (gmailForTool w ag) k"
    and kq: "\<And>gmail. only_events ?P (k gmail)"
  proof (cases "name = ''search_emails''")
    case True
    let ?k = "\<lambda>gmail. io_bind (io_lift (get_prop parsedArgs ''query'')) (\<lambda>query.
       io_bind (io_lift (get_prop parsedArgs ''maxResults'')) (\<lambda>maxResults.
       invoke w (GmailSearchMessages gmail query maxResults)))"
    have "tool_switch w ag (JStr name) parsedArgs = io_bind (gmailForTool w ag) ?k"
      using True by (simp add: tool_switch_def)
    moreover have "\<And>gmail. only_events ?P (?k gmail)"
      by (intro only_events_bind only_events_lift) (simp add: invoke_def only_events_perform)
    ultimately show ?thesis using that by blast
  next
    case False
    then have n: "name = ''send_email''" using assms by simp
    let ?k = "\<lambda>gmailSend. io_bind (io_lift (get_prop parsedArgs ''to'')) (\<lambda>to.
       io_bind (io_lift (get_prop parsedArgs ''subject'')) (\<lambda>subject.
       io_bind (io_lift (get_prop parsedArgs ''body'')) (\<lambda>body.
       invoke w (GmailSendEmail gmailSend to subject body))))"
    have "tool_switch w ag (JStr name) parsedArgs = io_bind (gmailForTool w ag) ?k"
      using n by (simp add: tool_switch_def)
    moreover have "\<And>gmail. only_events ?P (?k gmail)"
      by (intro only_events_bind only_events_lift) (simp add: invoke_def only_events_perform)
    ultimately show ?thesis using that by blast
  qed
  show ?thesis
  proof (cases "gmailForTool w ag tr")
    case (Pair a tr1)
    show ?thesis
    proof (cases a)
      case (Inl e)
      then have "tool_switch w ag (JStr name) parsedArgs tr = (Inl e, tr1)"
        using Pair k by (simp add: io_bind_def)
      then show ?thesis using Pair Inl by simp
    next
      case (Inr gmail)
      obtain rest where rest: "snd (k gmail tr1) = tr1 @ rest" "list_all ?P rest"
        using kq[of gmail] unfolding only_events_def by blast
      have "tool_switch w ag (JStr name) parsedArgs tr = k gmail tr1"
        using Pair Inr k by (simp add: io_bind_def)
      then show ?thesis using Pair Inr rest by simp
    qed
  qed
qed

text \<open>
  C6, amended. For the two email tools, with a non-empty session token: the handler first
  tests that token; when the test fails the stored token is looked up, and when that
  lookup fails too it is looked up once more, so the stored token is attempted at most
  twice, and the second time only after the first failed. The tool call then fails with
  the error of the last attempt, and no further attempt to establish the service follows.
\<close>

theorem stored_token_fallback_at_most_twice:
  assumes "agent_sessionToken ag = Some sessionToken" and "sessionToken \<noteq> []"
    and "name = ''search_emails'' \<or> name = ''send_email''"
  shows "gmailForTool w ag tr =
     (case getProfile w tr sessionToken of
        None \<Rightarrow> (Inr sessionToken, tr @ [GmailGetProfile sessionToken])
      | Some e \<Rightarrow>
          (case fst (Gmail_createForUser w (agent_userId ag) (tr @ [GmailGetProfile sessionToken])) of
             Inr token \<Rightarrow>
               (Inr token, tr @ [GmailGetProfile sessionToken, UserFindUnique (agent_userId ag) True])
           | Inl e1 \<Rightarrow>
               (fst (Gmail_createForUser w (agent_userId ag)
                       (tr @ [GmailGetProfile sessionToken, UserFindUnique (agent_userId ag) True])),
                tr @ [GmailGetProfile sessionToken, UserFindUnique (agent_userId ag) True,
                      UserFindUnique (agent_userId ag) True])))
   \<and> (\<exists>rest. snd (tool_switch w ag (JStr name) parsedArgs tr) = snd (gmailForTool w ag tr) @ rest
           \<and> list_all (\<lambda>e. \<not> is_credential_attempt e) rest
           \<and> (\<forall>e. fst (gmailForTool w ag tr) = Inl e
                 \<longrightarrow> tool_switch w ag (JStr name) parsedArgs tr = (Inl e, snd (gmailForTool w ag tr))))"
  using gmailForTool_eq[OF assms(1) assms(2), of w tr] email_tool_after_gmail[OF assms(3), of w ag parsedArgs tr]
  by blast

theorem stored_token_fallback_at_most_twice_witness:
  "agent_sessionToken online_agent = Some ''session'' \<and> ''session'' \<noteq> []
   \<and> (''send_email'' = ''search_emails'' \<or> ''send_email'' = ''send_email'')
   \<and> gmailForTool expired_session_world online_agent [] =
     (case getProfile expired_session_world [] ''session'' of
        None \<Rightarrow> (Inr ''session'', [] @ [GmailGetProfile ''session''])
      | Some e \<Rightarrow>
          (case fst (Gmail_createForUser expired_session_world (agent_userId online_agent)
                       ([] @ [GmailGetProfile ''session''])) of
             Inr token \<Rightarrow>
               (Inr token, [] @ [GmailGetProfile ''session'',
                                 UserFindUnique (agent_userId online_agent) True])
           | Inl e1 \<Rightarrow>
               (fst (Gmail_createForUser expired_session_world (agent_userId online_agent)
                       ([] @ [GmailGetProfile ''session'',
                              UserFindUnique (agent_userId online_agent) True])),
                [] @ [GmailGetProfile ''session'', UserFindUnique (agent_userId online_agent) True,
                      UserFindUnique (agent_userId online_agent) True])))
   \<and> (\<exists>rest. snd (tool_switch expired_session_world online_agent (JStr ''send_email'') (JObj []) [])
                = snd (gmailForTool expired_session_world online_agent []) @ rest
           \<and> list_all (\<lambda>e. \<not> is_credential_attempt e) rest
           \<and> (\<forall>e. fst (gmailForTool expired_session_world online_agent []) = Inl e
                 \<longrightarrow> tool_switch expired_session_world online_agent (JStr ''send_email'') (JObj []) []
                      = (Inl e, snd (gmailForTool expired_session_world online_agent []))))
   \<and> gmailForTool expired_session_world online_agent [] =
       (Inr ''stored'', [GmailGetProfile ''session'', UserFindUnique ''u1'' True])
   \<and> snd (tool_switch expired_session_world online_agent (JStr ''send_email'') (JObj []) []) =
       [GmailGetProfile ''session'', UserFindUnique ''u1'' True,
        GmailSendEmail ''stored'' JUndefined JUndefined JUndefined]"
proof -
  have h1: "agent_sessionToken online_agent = Some ''session''" by (simp add: online_agent_def)
  have h2: "''session'' \<noteq> []" by simp
  have h3: "''send_email'' = ''search_emails'' \<or> ''send_email'' = ''send_email''" by simp
  have run: "gmailForTool expired_session_world online_agent [] =
       (Inr ''stored'', [GmailGetProfile ''session'', UserFindUnique ''u1'' True])"
    by code_simp
  have tool: "snd (tool_switch expired_session_world online_agent (JStr ''send_email'') (JObj []) []) =
       [GmailGetProfile ''session'', UserFindUnique ''u1'' True,
        GmailSendEmail ''stored'' JUndefined JUndefined JUndefined]"
    by code_simp
  from stored_token_fallback_at_most_twice[OF h1 h2 h3, of expired_session_world "[]" "JObj []"]
    h1 h2 h3 run tool
  show ?thesis by blast
qed

subsection \<open>The tool calls of a webhook action\<close>

text \<open>
  C5. The loop of \<open>processWebhookEvent\<close> stands inside one \<open>try\<close>, so the first
  invocation that throws ends it: here the contact search fails, nothing is surfaced,
  and the task creation that follows it in the action is never dispatched, although
  alone it succeeds.
\<close>

theorem webhook_stops_at_first_failure:
  "fst (processWebhookEvent webhook_world webhook_agent ''hubspot_contact_updated'' (JObj []) []) = Inr ()
   \<and> filter (\<lambda>e. \<not> is_completion e)
        (snd (processWebhookEvent webhook_world webhook_agent ''hubspot_contact_updated'' (JObj []) []))
       = [UserFindUnique ''u1'' False, ExecuteToolCall webhook_call_1, UserFindUnique ''u1'' False]
   \<and> webhookLoop webhook_world webhook_agent [webhook_call_1, webhook_call_2] [] =
       (Inl (Error ''HubSpot not connected for this user'' None),
        [ExecuteToolCall webhook_call_1, UserFindUnique ''u1'' False])
   \<and> webhookLoop webhook_world webhook_agent [webhook_call_2] [] =
       (Inr (),
        [ExecuteToolCall webhook_call_2,
         TaskCreate (JObj [(''userId'', JStr ''u1''), (''title'', JUndefined),
                           (''description'', JUndefined), (''priority'', JStr ''MEDIUM''),
                           (''toolCalls'', JUndefined), (''context'', JUndefined)])])"
  by code_simp

theorem webhook_stops_at_first_failure_witness:
  "fst (processWebhookEvent webhook_world webhook_agent ''hubspot_contact_updated'' (JObj []) []) = Inr ()
   \<and> filter (\<lambda>e. \<not> is_completion e)
        (snd (processWebhookEvent webhook_world webhook_agent ''hubspot_contact_updated'' (JObj []) []))
       = [UserFindUnique ''u1'' False, ExecuteToolCall webhook_call_1, UserFindUnique ''u1'' False]"
  using webhook_stops_at_first_failure by blast

end
